theory Spec2Isabelle
  imports Main
begin

section \<open>JavaScript values and string primitives used by the client\<close>

text \<open>
  Values that travel through the client untyped (response bodies, parsed JSON, the
  argument of a notification). Numbers are integers here: the code only prints them
  and tests their truthiness. An absent property is \<open>JUndefined\<close>.
\<close>

datatype jsval =
    JUndefined
  | JNull
  | JBool bool
  | JNum int
  | JStr string
  | JArr "jsval list"
  | JObj "(string \<times> jsval) list"

text \<open>Truthiness, as \<open>if (v)\<close>, \<open>!!v\<close> and \<open>a || b\<close> test it.\<close>

fun truthy :: "jsval \<Rightarrow> bool" where
  "truthy JUndefined = False"
| "truthy JNull = False"
| "truthy (JBool b) = b"
| "truthy (JNum n) = (n \<noteq> 0)"
| "truthy (JStr s) = (s \<noteq> [])"
| "truthy (JArr xs) = True"
| "truthy (JObj kvs) = True"

text \<open>\<open>a || b\<close> and \<open>a ?? b\<close>.\<close>

definition js_or :: "jsval \<Rightarrow> jsval \<Rightarrow> jsval" where
  "js_or a b = (if truthy a then a else b)"

definition nullish :: "jsval \<Rightarrow> jsval \<Rightarrow> jsval" where
  "nullish a b = (if a = JUndefined \<or> a = JNull then b else a)"

text \<open>
  \<open>v?.k\<close> for the property names the client reads (\<open>detail\<close>, \<open>access_token\<close>,
  \<open>dataset\<close>, \<open>id\<close>, ...): an own property of an object, undefined on everything
  else. Inherited properties and the indices and \<open>length\<close> of strings and arrays are
  not modelled.
\<close>

fun get_prop :: "jsval \<Rightarrow> string \<Rightarrow> jsval" where
  "get_prop (JObj kvs) k = (case map_of kvs k of None \<Rightarrow> JUndefined | Some v \<Rightarrow> v)"
| "get_prop v k = JUndefined"

text \<open>\<open>s.split(sep)\<close> for a one-character separator: never empty, \<open>''''\<close> gives \<open>['''']\<close>.\<close>

definition cons_first :: "char \<Rightarrow> string list \<Rightarrow> string list" where
  "cons_first c ps = (case ps of [] \<Rightarrow> [[c]] | p # qs \<Rightarrow> (c # p) # qs)"

fun js_split :: "char \<Rightarrow> string \<Rightarrow> string list" where
  "js_split sep [] = [[]]"
| "js_split sep (c # cs) =
     (if c = sep then [] # js_split sep cs else cons_first c (js_split sep cs))"

text \<open>\<open>s.split(/\r?\n/)\<close>: a line feed, or a carriage return followed by one, separates.\<close>

fun split_lines :: "string \<Rightarrow> string list" where
  "split_lines [] = [[]]"
| "split_lines [c] = (if c = CHR 0x0A then [[], []] else [[c]])"
| "split_lines (c # d # cs) =
     (if c = CHR 0x0A then [] # split_lines (d # cs)
      else if c = CHR 0x0D \<and> d = CHR 0x0A then [] # split_lines cs
      else cons_first c (split_lines (d # cs)))"

definition startsWith :: "string \<Rightarrow> string \<Rightarrow> bool" where
  "startsWith s p = (take (length p) s = p)"

definition endsWith :: "string \<Rightarrow> string \<Rightarrow> bool" where
  "endsWith s p = (length p \<le> length s \<and> drop (length s - length p) s = p)"

fun js_includes :: "string \<Rightarrow> string \<Rightarrow> bool" where
  "js_includes [] p = (p = [])"
| "js_includes (c # cs) p = (startsWith (c # cs) p \<or> js_includes cs p)"

text \<open>\<open>toLowerCase\<close> on the ASCII letters, which is all a file extension test needs.\<close>

definition lower_char :: "char \<Rightarrow> char" where
  "lower_char c =
     (case map_of (zip ''ABCDEFGHIJKLMNOPQRSTUVWXYZ'' ''abcdefghijklmnopqrstuvwxyz'') c of
        None \<Rightarrow> c
      | Some d \<Rightarrow> d)"

definition toLowerCase :: "string \<Rightarrow> string" where
  "toLowerCase s = map lower_char s"


section \<open>Requests, responses and errors\<close>

text \<open>A browser \<open>File\<close>: its name, its size in bytes and the text that \<open>file.text()\<close> reads.\<close>

record js_file =
  file_name :: string
  file_size :: nat
  file_text :: string

datatype body =
    NoBody
  | UrlEncoded "(string \<times> string) list"
  | JsonBody jsval
  | FormData "(string \<times> js_file) list"

text \<open>
  A request configuration. \<open>retryCount\<close> is the \<open>__retryCount\<close> property that the
  response interceptor attaches to the configuration object; \<open>None\<close> is undefined.
\<close>

record config =
  baseURL :: "string option"
  url :: "string option"
  http_method :: "string option"
  headers :: "(string \<times> string) list"
  data :: body
  retryCount :: "nat option"

record response =
  status :: nat
  resp_data :: jsval

text \<open>
  The error a request rejects with: \<open>error.code\<close>, \<open>error.message\<close>,
  \<open>error.response\<close> (absent when no response arrived) and \<open>error.config\<close>.
\<close>

record axios_error =
  code :: "string option"
  message :: string
  err_response :: "response option"
  err_config :: "config option"

datatype js_error =
    Error string
  | TypeError string
  | SyntaxError string
  | AxiosError axios_error

text \<open>\<open>e?.message\<close> of a caught error.\<close>

fun error_message :: "js_error \<Rightarrow> string" where
  "error_message (Error m) = m"
| "error_message (TypeError m) = m"
| "error_message (SyntaxError m) = m"
| "error_message (AxiosError e) = message e"

datatype toast = ToastError jsval | ToastSuccess jsval

section \<open>The session (AuthContext.tsx)\<close>

text \<open>
  The state the provider owns or touches: the React state \<open>token\<close> and
  \<open>loadingCount\<close>, the browser's \<open>localStorage\<close>, the notifications shown so far,
  \<open>window.location.href\<close> (\<open>None\<close> where there is no \<open>window\<close>), and the requests
  handed to the network so far, in order. Console output is not part of the state.
\<close>

type_synonym storage = "string \<rightharpoonup> string"

record session =
  token :: "string option"
  localStorage :: storage
  loadingCount :: int
  toasts :: "toast list"
  location_href :: "string option"
  sent :: "config list"

definition isAuthenticated :: "session \<Rightarrow> bool" where
  "isAuthenticated s = (case token s of None \<Rightarrow> False | Some t \<Rightarrow> t \<noteq> [])"

definition isLoading :: "session \<Rightarrow> bool" where
  "isLoading s = (loadingCount s > 0)"

subsection \<open>The initial token\<close>

text \<open>
  The body of the \<open>try\<close> block of the \<open>useState\<close> initializer, up to the test of the
  number of parts: \<open>split\<close> on a string returns, it has no throwing branch.
\<close>

definition try_split :: "string \<Rightarrow> js_error + string list" where
  "try_split storedToken = Inr (js_split CHR ''.'' storedToken)"

text \<open>
  The initializer of \<open>token\<close>: the initial token and \<open>localStorage\<close> after it. The
  \<open>catch\<close> clause (which removes the stored token) is the \<open>Inl\<close> branch.
\<close>

definition initial_token :: "storage \<Rightarrow> string option \<times> storage" where
  "initial_token ls =
     (case ls ''token'' of
        None \<Rightarrow> (None, ls)
      | Some storedToken \<Rightarrow>
          if storedToken \<noteq> [] then
            (case try_split storedToken of
               Inr parts \<Rightarrow> if length parts = 3 then (Some storedToken, ls) else (None, ls)
             | Inl e \<Rightarrow> (None, ls(''token'' := None)))
          else (None, ls))"


subsection \<open>The interceptors of the client\<close>

text \<open>
  The client built by \<open>useMemo\<close> closes over the base URL it resolved and over the
  token of the render that built it.
\<close>

record api_client =
  client_baseURL :: string
  client_token :: "string option"

text \<open>\<open>obj[k] = v\<close>: an existing property keeps its place, a new one goes last.\<close>

definition assoc_set :: "string \<Rightarrow> 'v \<Rightarrow> (string \<times> 'v) list \<Rightarrow> (string \<times> 'v) list" where
  "assoc_set k v kvs =
     (if k \<in> fst ` set kvs then map (\<lambda>(k', v'). if k' = k then (k', v) else (k', v')) kvs
      else kvs @ [(k, v)])"

text \<open>The request interceptor: count the request, attach the token if there is one.\<close>

definition request_interceptor :: "api_client \<Rightarrow> config \<Rightarrow> session \<Rightarrow> config \<times> session" where
  "request_interceptor api cfg s =
     (let s1 = s\<lparr>loadingCount := loadingCount s + 1\<rparr>
      in case client_token api of
           None \<Rightarrow> (cfg, s1)
         | Some t \<Rightarrow>
             if t \<noteq> [] then (cfg\<lparr>headers := assoc_set ''Authorization'' (''Bearer '' @ t) (headers cfg)\<rparr>, s1)
             else (cfg, s1))"

text \<open>The response interceptor, success path.\<close>

definition response_fulfilled :: "response \<Rightarrow> session \<Rightarrow> response \<times> session" where
  "response_fulfilled r s = (r, s\<lparr>loadingCount := max 0 (loadingCount s - 1)\<rparr>)"

definition MAX_RETRIES :: nat where
  "MAX_RETRIES = 1"

definition retriable :: "nat list" where
  "retriable = [502, 503, 504]"

text \<open>\<open>cfg.__retryCount || 0\<close>.\<close>

definition retry_of :: "config \<Rightarrow> nat" where
  "retry_of cfg = (case retryCount cfg of None \<Rightarrow> 0 | Some n \<Rightarrow> n)"

text \<open>\<open>{}\<close>, which stands in for a missing \<open>error.config\<close>.\<close>

definition empty_config :: config where
  "empty_config = \<lparr>baseURL = None, url = None, http_method = None, headers = [], data = NoBody,
                    retryCount = None\<rparr>"

text \<open>
  What the failure path returns: the promise of the re-issued request, or the rejection
  of the error.
\<close>

datatype decision = Retry config | Reject axios_error

text \<open>\<open>error.response?.status\<close> and \<open>error.config?.url\<close>.\<close>

definition error_status :: "axios_error \<Rightarrow> nat option" where
  "error_status e = map_option status (err_response e)"

definition error_url :: "axios_error \<Rightarrow> string option" where
  "error_url e = (case err_config e of None \<Rightarrow> None | Some c \<Rightarrow> url c)"

text \<open>\<open>error.response?.data?.detail\<close>.\<close>

definition error_detail :: "axios_error \<Rightarrow> jsval" where
  "error_detail e = (case err_response e of None \<Rightarrow> JUndefined | Some r \<Rightarrow> get_prop (resp_data r) ''detail'')"

text \<open>
  The text of the notification:
  \<open>msg = error.response?.data?.detail || error.message || 'Request failed'\<close>, then
  \<open>typeof msg === 'string' ? msg : 'An unexpected error occurred'\<close>.
\<close>

definition toast_text :: "axios_error \<Rightarrow> string" where
  "toast_text e =
     (let msg = js_or (js_or (error_detail e) (JStr (message e))) (JStr ''Request failed'')
      in case msg of JStr m \<Rightarrow> m | _ \<Rightarrow> ''An unexpected error occurred'')"

text \<open>
  The response interceptor, failure path. The retry counter is written into the
  configuration object, so the rejected error carries it too (when it has a
  configuration at all).
\<close>

definition response_rejected :: "axios_error \<Rightarrow> session \<Rightarrow> decision \<times> session" where
  "response_rejected e s =
     (let s1 = s\<lparr>loadingCount := max 0 (loadingCount s - 1)\<rparr>;
          st = error_status e;
          u = error_url e;
          cfg0 = (case err_config e of None \<Rightarrow> empty_config | Some c \<Rightarrow> c);
          cfg = cfg0\<lparr>retryCount := Some (retry_of cfg0)\<rparr>;
          e1 = e\<lparr>err_config := map_option (\<lambda>c. cfg) (err_config e)\<rparr>
      in if (case st of None \<Rightarrow> False | Some n \<Rightarrow> n \<in> set retriable) \<and> retry_of cfg < MAX_RETRIES
         then (Retry (cfg\<lparr>retryCount := Some (retry_of cfg + 1)\<rparr>), s1)
         else if st = Some 401
         then (Reject e1,
               s1\<lparr>token := None,
                  localStorage := (localStorage s1)(''token'' := None),
                  location_href := (case location_href s1 of None \<Rightarrow> None | Some h \<Rightarrow> Some ''/login'')\<rparr>)
         else
           (let isPredict = (case u of None \<Rightarrow> False | Some v \<Rightarrow> js_includes v ''/predict/'')
            in if \<not> (st = Some 400 \<and> isPredict)
               then (Reject e1, s1\<lparr>toasts := toasts s1 @ [ToastError (JStr (toast_text e))]\<rparr>)
               else (Reject e1, s1)))"

subsection \<open>Dispatching a request through the client\<close>

text \<open>
  The network: given the requests sent before and the request sent now, it answers
  with a response that the transport accepts, or with a failure (code, message and the
  response if one arrived). The transport attaches the request's configuration, custom
  properties included, to the error it rejects with.
\<close>

datatype transport_result =
    Fulfilled response
  | Failed "string option" string "response option"

type_synonym network = "config list \<Rightarrow> config \<Rightarrow> transport_result"

definition with_defaults :: "api_client \<Rightarrow> config \<Rightarrow> config" where
  "with_defaults api cfg =
     (case baseURL cfg of None \<Rightarrow> cfg\<lparr>baseURL := Some (client_baseURL api)\<rparr> | Some b \<Rightarrow> cfg)"

definition as_error :: "config \<Rightarrow> string option \<Rightarrow> string \<Rightarrow> response option \<Rightarrow> axios_error" where
  "as_error cfg c m r = \<lparr>code = c, message = m, err_response = r, err_config = Some cfg\<rparr>"

text \<open>
  One pass of a request through the client, up to the decision of the failure path:
  the request interceptor, the network, then one of the two response interceptors.
\<close>

definition attempt :: "network \<Rightarrow> api_client \<Rightarrow> config \<Rightarrow> session \<Rightarrow> (decision + response) \<times> session" where
  "attempt net api cfg s =
     (let (cfg1, s1) = request_interceptor api (with_defaults api cfg) s;
          s2 = s1\<lparr>sent := sent s1 @ [cfg1]\<rparr>
      in case net (sent s1) cfg1 of
           Fulfilled r \<Rightarrow> (case response_fulfilled r s2 of (r', s3) \<Rightarrow> (Inr r', s3))
         | Failed c m r \<Rightarrow> (case response_rejected (as_error cfg1 c m r) s2 of (d, s3) \<Rightarrow> (Inl d, s3)))"


text \<open>
  \<open>instance(cfg)\<close>: the failure path re-enters the client with the configuration it
  returned. The retry counter travels on the configuration and bounds the recursion.
\<close>

function dispatch :: "network \<Rightarrow> api_client \<Rightarrow> config \<Rightarrow> session \<Rightarrow> (axios_error + response) \<times> session" where
  "dispatch net api cfg s =
     (case attempt net api cfg s of
        (Inr r, s') \<Rightarrow> (Inr r, s')
      | (Inl (Reject e), s') \<Rightarrow> (Inl e, s')
      | (Inl (Retry cfg'), s') \<Rightarrow> dispatch net api cfg' s')"
  by pat_completeness auto
termination
proof (relation "measure (\<lambda>(net, api, cfg, s). MAX_RETRIES - retry_of cfg)")
  show "wf (measure (\<lambda>(net, api, cfg, s). MAX_RETRIES - retry_of cfg))" by simp
next
  fix net :: network and api cfg s x1 x2 a c
  assume "(x1, x2) = attempt net api cfg s" "x1 = Inl a" "a = Retry c"
  then have att: "attempt net api cfg s = (Inl (Retry c), x2)" by simp
  obtain cfg1 s1 where ri: "request_interceptor api (with_defaults api cfg) s = (cfg1, s1)"
    by (cases "request_interceptor api (with_defaults api cfg) s")
  have "retry_of (with_defaults api cfg) = retry_of cfg"
    by (simp add: with_defaults_def retry_of_def split: option.splits)
  moreover have "retry_of cfg1 = retry_of (with_defaults api cfg)"
    using ri by (auto simp: request_interceptor_def retry_of_def Let_def split: option.splits if_splits)
  ultimately have r1: "retry_of cfg1 = retry_of cfg" by simp
  from att ri obtain cd m r where
    rej: "response_rejected (as_error cfg1 cd m r) (s1\<lparr>sent := sent s1 @ [cfg1]\<rparr>) = (Retry c, x2)"
    by (auto simp: attempt_def Let_def response_fulfilled_def split: transport_result.splits prod.splits)
  then have "retry_of cfg1 < MAX_RETRIES \<and> retry_of c = retry_of cfg1 + 1"
    by (auto simp: response_rejected_def as_error_def Let_def retry_of_def split: if_splits)
  with r1 show "((net, api, c, x2), net, api, cfg, s) \<in> measure (\<lambda>(net, api, cfg, s). MAX_RETRIES - retry_of cfg)"
    by auto
qed

declare dispatch.simps [simp del]

text \<open>\<open>api.post(url, data, {headers})\<close> and \<open>api.get(url)\<close>.\<close>

definition api_post :: "network \<Rightarrow> api_client \<Rightarrow> string \<Rightarrow> body \<Rightarrow> (string \<times> string) list \<Rightarrow> session
    \<Rightarrow> (axios_error + response) \<times> session" where
  "api_post net api u d hs s =
     dispatch net api (empty_config\<lparr>url := Some u, http_method := Some ''post'', headers := hs, data := d\<rparr>) s"

definition api_get :: "network \<Rightarrow> api_client \<Rightarrow> string \<Rightarrow> session \<Rightarrow> (axios_error + response) \<times> session" where
  "api_get net api u s = dispatch net api (empty_config\<lparr>url := Some u, http_method := Some ''get''\<rparr>) s"

subsection \<open>Requests in flight\<close>

text \<open>
  Several requests may be in flight at once, so the interceptors of different requests
  interleave. An event is one interceptor running; a retry shows up as a further
  dispatch.
\<close>

datatype event =
    Dispatched api_client config
  | Succeeded response
  | Errored axios_error

fun step :: "event \<Rightarrow> session \<Rightarrow> session" where
  "step (Dispatched api cfg) s = snd (request_interceptor api cfg s)"
| "step (Succeeded r) s = snd (response_fulfilled r s)"
| "step (Errored e) s = snd (response_rejected e s)"

definition run_events :: "event list \<Rightarrow> session \<Rightarrow> session" where
  "run_events es s = fold step es s"

text \<open>
  The number of requests in flight after the events, starting from \<open>n\<close>; \<open>None\<close>
  when a response arrives although no request is in flight.
\<close>

fun in_flight :: "event list \<Rightarrow> nat \<Rightarrow> nat option" where
  "in_flight [] n = Some n"
| "in_flight (Dispatched api cfg # es) n = in_flight es (Suc n)"
| "in_flight (Succeeded r # es) n = (if n = 0 then None else in_flight es (n - 1))"
| "in_flight (Errored e # es) n = (if n = 0 then None else in_flight es (n - 1))"

subsection \<open>The base URL\<close>

text \<open>
  \<open>import.meta.env\<close>: \<open>None\<close> when it is undefined, else the variables it defines.
\<close>

type_synonym env = "(string \<rightharpoonup> string) option"

text \<open>
  The platform's \<open>new URL(s)\<close>, as far as the client uses it: the \<open>protocol\<close> of the
  parsed URL, or \<open>None\<close> when the constructor throws.
\<close>

type_synonym url_parser = "string \<Rightarrow> string option"

datatype console_entry = Warn string | Log string

definition DEFAULT_BASE_URL :: string where
  "DEFAULT_BASE_URL = ''http://127.0.0.1:8000/api''"

definition baseURLCandidate :: "env \<Rightarrow> string option" where
  "baseURLCandidate env = (case env of None \<Rightarrow> None | Some vars \<Rightarrow> vars ''VITE_API_BASE_URL'')"

text \<open>The \<open>try\<close> block of the resolution: it throws on an unparsable URL and on a protocol
  that does not start with \<open>http\<close>.\<close>

definition checked_base_url :: "url_parser \<Rightarrow> string option \<Rightarrow> js_error + string" where
  "checked_base_url URL cand =
     (case cand of
        None \<Rightarrow> Inr DEFAULT_BASE_URL
      | Some c \<Rightarrow>
          if c = [] then Inr DEFAULT_BASE_URL
          else (case URL c of
                  None \<Rightarrow> Inl (TypeError ''Invalid URL'')
                | Some protocol \<Rightarrow>
                    if \<not> startsWith protocol ''http'' then Inl (Error ''Invalid protocol'')
                    else Inr c))"

text \<open>
  The resolution with its \<open>catch\<close> clause: the base URL and the console output (the
  warning without its leading symbol). The clause catches everything, so the result is
  never \<open>Inl\<close>.
\<close>

definition resolve_base_url :: "url_parser \<Rightarrow> env \<Rightarrow> js_error + (string \<times> console_entry list)" where
  "resolve_base_url URL env =
     (let cand = baseURLCandidate env
      in case checked_base_url URL cand of
           Inr b \<Rightarrow> Inr (b, [Log (''Using API base URL: '' @ b)])
         | Inl e \<Rightarrow>
             Inr (DEFAULT_BASE_URL,
                  [Warn (''Invalid VITE_API_BASE_URL provided ('' @ (case cand of None \<Rightarrow> ''undefined'' | Some c \<Rightarrow> c)
                         @ ''); falling back to '' @ DEFAULT_BASE_URL),
                   Log (''Using API base URL: '' @ DEFAULT_BASE_URL)]))"

definition warnings :: "console_entry list \<Rightarrow> string list" where
  "warnings out = concat (map (\<lambda>x. case x of Warn w \<Rightarrow> [w] | Log l \<Rightarrow> []) out)"

text \<open>The base URL that \<open>login\<close> and \<open>signup\<close> compute, each for its own client.\<close>

definition login_base_url :: "env \<Rightarrow> string" where
  "login_base_url env =
     (case env of
        None \<Rightarrow> ''http://127.0.0.1:8000/api''
      | Some vars \<Rightarrow>
          (case vars ''VITE_API_BASE_URL'' of
             None \<Rightarrow> ''http://127.0.0.1:8000/api''
           | Some u \<Rightarrow> if u \<noteq> [] then u else ''http://127.0.0.1:8000/api''))"

definition signup_base_url :: "env \<Rightarrow> string" where
  "signup_base_url env =
     (case env of
        None \<Rightarrow> ''http://127.0.0.1:8000/api''
      | Some vars \<Rightarrow>
          (case vars ''VITE_API_BASE_URL'' of
             None \<Rightarrow> ''http://127.0.0.1:8000/api''
           | Some u \<Rightarrow> if u \<noteq> [] then u else ''http://127.0.0.1:8000/api''))"

subsection \<open>login, signup, logout\<close>

text \<open>\<open>post\<close> on a client made by \<open>axios.create({ baseURL })\<close>, with no interceptors.\<close>

definition plain_post :: "network \<Rightarrow> string \<Rightarrow> string \<Rightarrow> body \<Rightarrow> (string \<times> string) list \<Rightarrow> session
    \<Rightarrow> (axios_error + response) \<times> session" where
  "plain_post net base u d hs s =
     (let cfg = \<lparr>baseURL = Some base, url = Some u, http_method = Some ''post'', headers = hs,
                 data = d, retryCount = None\<rparr>;
          s1 = s\<lparr>sent := sent s @ [cfg]\<rparr>
      in case net (sent s) cfg of
           Fulfilled r \<Rightarrow> (Inr r, s1)
         | Failed c m r \<Rightarrow> (Inl (as_error cfg c m r), s1))"

text \<open>
  \<open>res.data.access_token.substring(0, 20)\<close> in the log line throws unless the token
  is a string; then the token is stored.
\<close>

definition login :: "network \<Rightarrow> env \<Rightarrow> string \<Rightarrow> string \<Rightarrow> session \<Rightarrow> (js_error + unit) \<times> session" where
  "login net env username password s =
     (let form = UrlEncoded [(''username'', username), (''password'', password)];
          base = login_base_url env
      in case plain_post net base ''/login'' form
                [(''Content-Type'', ''application/x-www-form-urlencoded'')] s of
           (Inl e, s1) \<Rightarrow> (Inl (AxiosError e), s1)
         | (Inr res, s1) \<Rightarrow>
             (case get_prop (resp_data res) ''access_token'' of
                JStr t \<Rightarrow> (Inr (), s1\<lparr>token := Some t, localStorage := (localStorage s1)(''token'' \<mapsto> t)\<rparr>)
              | _ \<Rightarrow> (Inl (TypeError ''access_token.substring is not a function''), s1)))"

definition signup :: "network \<Rightarrow> env \<Rightarrow> string \<Rightarrow> string \<Rightarrow> string \<Rightarrow> session \<Rightarrow> (js_error + unit) \<times> session" where
  "signup net env email username password s =
     (let base = signup_base_url env
      in case plain_post net base ''/signup''
                (JsonBody (JObj [(''email'', JStr email), (''username'', JStr username),
                                 (''password'', JStr password)])) [] s of
           (Inl e, s1) \<Rightarrow> (Inl (AxiosError e), s1)
         | (Inr res, s1) \<Rightarrow> login net env username password s1)"

definition logout :: "session \<Rightarrow> session" where
  "logout s = s\<lparr>token := None, localStorage := (localStorage s)(''token'' := None)\<rparr>"

text \<open>
  The requests that \<open>login\<close> and \<open>signup\<close> hand to the network, given the base URL
  of their client.
\<close>

definition login_request :: "string \<Rightarrow> string \<Rightarrow> string \<Rightarrow> config" where
  "login_request base username password =
     \<lparr>baseURL = Some base, url = Some ''/login'', http_method = Some ''post'',
      headers = [(''Content-Type'', ''application/x-www-form-urlencoded'')],
      data = UrlEncoded [(''username'', username), (''password'', password)], retryCount = None\<rparr>"

definition signup_request :: "string \<Rightarrow> string \<Rightarrow> string \<Rightarrow> string \<Rightarrow> config" where
  "signup_request base email username password =
     \<lparr>baseURL = Some base, url = Some ''/signup'', http_method = Some ''post'', headers = [],
      data = JsonBody (JObj [(''email'', JStr email), (''username'', JStr username), (''password'', JStr password)]),
      retryCount = None\<rparr>"

section \<open>The upload page (unnamed/part_003)\<close>

subsection \<open>Printing values\<close>

function show_nat :: "nat \<Rightarrow> string" where
  "show_nat n =
     (if n < 10 then [''0123456789'' ! n] else show_nat (n div 10) @ [''0123456789'' ! (n mod 10)])"
  by pat_completeness auto
termination
  by (relation "measure id") auto

declare show_nat.simps [simp del]

definition join_comma :: "string list \<Rightarrow> string" where
  "join_comma xs = (case xs of [] \<Rightarrow> [] | y # ys \<Rightarrow> foldl (\<lambda>acc z. acc @ '','' @ z) y ys)"

text \<open>\<open>String(v)\<close>, which a template literal applies too.\<close>

fun js_String :: "jsval \<Rightarrow> string" where
  "js_String JUndefined = ''undefined''"
| "js_String JNull = ''null''"
| "js_String (JBool b) = (if b then ''true'' else ''false'')"
| "js_String (JNum n) = (if n < 0 then ''-'' @ show_nat (nat (- n)) else show_nat (nat n))"
| "js_String (JStr s) = s"
| "js_String (JArr xs) =
     join_comma (map (\<lambda>x. if x = JUndefined \<or> x = JNull then [] else js_String x) xs)"
| "js_String (JObj kvs) = ''[object Object]''"

text \<open>\<open>s.trim()\<close>, on the ASCII white space.\<close>

definition is_space :: "char \<Rightarrow> bool" where
  "is_space c = (c \<in> set [CHR 0x09, CHR 0x0A, CHR 0x0B, CHR 0x0C, CHR 0x0D, CHR 0x20])"

definition js_trim :: "string \<Rightarrow> string" where
  "js_trim s = rev (dropWhile is_space (rev (dropWhile is_space s)))"

text \<open>
  \<open>Object.keys(v)\<close> for a truthy value: the keys of an object in the order of its
  list, the indices of an array or a string, nothing for a number or a boolean.
\<close>

fun Object_keys :: "jsval \<Rightarrow> string list" where
  "Object_keys (JObj kvs) = map fst kvs"
| "Object_keys (JArr xs) = map show_nat [0..<length xs]"
| "Object_keys (JStr s) = map show_nat [0..<length s]"
| "Object_keys v = []"

subsection \<open>The state of the page\<close>

text \<open>
  The React state of the page and the session it works on. \<open>timers\<close> are the delays
  the page has awaited, \<open>scheduled\<close> the navigations it has scheduled with
  \<open>setTimeout\<close>. Progress events of the transport are not modelled.
\<close>

record upload_page =
  sess :: session
  uploading :: bool
  progress :: nat
  fileName :: string
  previewRows :: jsval
  previewHeaders :: jsval
  errorMsg :: string
  lastFile :: "js_file option"
  success :: bool
  timers :: "nat list"
  scheduled :: "(nat \<times> string) list"

definition MAX_BYTES :: nat where
  "MAX_BYTES = 100 * 1024 * 1024"

definition ALLOWED_EXT :: "string list" where
  "ALLOWED_EXT = [''.csv'', ''.xlsx'', ''.xls'', ''.json'']"

definition show_toast :: "toast \<Rightarrow> upload_page \<Rightarrow> upload_page" where
  "show_toast t v = v\<lparr>sess := (sess v)\<lparr>toasts := toasts (sess v) @ [t]\<rparr>\<rparr>"

subsection \<open>Detecting the columns\<close>

text \<open>The platform's \<open>JSON.parse\<close>: \<open>None\<close> when it throws.\<close>

type_synonym json_parser = "string \<Rightarrow> jsval option"

type_synonym detected = "string list \<times> jsval list"

text \<open>One row object: each header, in turn, is assigned the value at its index, or the
  empty string when the line has no value there.\<close>

definition row_object :: "string list \<Rightarrow> string \<Rightarrow> jsval" where
  "row_object hs l =
     (let vals = js_split CHR '','' l
      in JObj (fold (\<lambda>(h, i) obj. assoc_set h (JStr (if i < length vals then vals ! i else [])) obj)
                 (zip hs [0..<length hs]) []))"

definition parseCsvHeadersRows :: "js_file \<Rightarrow> js_error + detected" where
  "parseCsvHeadersRows f =
     (let lines = take 6 (filter (\<lambda>l. l \<noteq> []) (split_lines (file_text f)))
      in case lines of
           [] \<Rightarrow> Inr ([], [])
         | l0 # rest \<Rightarrow>
             (let hs = js_split CHR '','' l0
              in Inr (hs, map (row_object hs) rest)))"

definition parseJsonHeadersRows :: "json_parser \<Rightarrow> js_file \<Rightarrow> js_error + detected" where
  "parseJsonHeadersRows JSON_parse f =
     (case JSON_parse (file_text f) of
        None \<Rightarrow> Inl (SyntaxError ''Unexpected token'')
      | Some json \<Rightarrow>
          (let arr = (case json of
                        JArr xs \<Rightarrow> xs
                      | _ \<Rightarrow> (case get_prop json ''data'' of JArr ys \<Rightarrow> ys | _ \<Rightarrow> []));
               slice = take 5 arr;
               hs = (case slice of [] \<Rightarrow> [] | x # _ \<Rightarrow> if truthy x then Object_keys x else [])
           in Inr (hs, slice)))"

text \<open>
  The loop of \<open>detectColumns\<close>, by the number of rounds left: a result with headers
  returns, one without waits 500 ms and goes on, an exception is re-thrown in the last
  round only. After the last round the function throws.
\<close>

fun detect_rounds :: "json_parser \<Rightarrow> js_file \<Rightarrow> nat \<Rightarrow> nat list \<Rightarrow> (js_error + detected) \<times> nat list" where
  "detect_rounds JSON_parse f 0 tm = (Inl (Error ''Could not detect columns after multiple attempts''), tm)"
| "detect_rounds JSON_parse f (Suc k) tm =
     (let lower = toLowerCase (file_name f);
          result = (if endsWith lower ''.csv'' then parseCsvHeadersRows f
                    else if endsWith lower ''.json'' then parseJsonHeadersRows JSON_parse f
                    else Inr ([], []))
      in case result of
           Inr (hs, rows) \<Rightarrow>
             if length hs > 0 then (Inr (hs, rows), tm)
             else detect_rounds JSON_parse f k (tm @ [500])
         | Inl e \<Rightarrow> if k = 0 then (Inl e, tm) else detect_rounds JSON_parse f k tm)"

definition detectColumns :: "json_parser \<Rightarrow> js_file \<Rightarrow> nat \<Rightarrow> nat list \<Rightarrow> (js_error + detected) \<times> nat list" where
  "detectColumns JSON_parse f retries tm = detect_rounds JSON_parse f retries tm"

subsection \<open>Validation\<close>

definition validateFileBasics :: "js_file \<Rightarrow> string option" where
  "validateFileBasics f =
     (let lower = toLowerCase (file_name f);
          allowed = list_ex (\<lambda>ext. endsWith lower ext) ALLOWED_EXT
      in if \<not> allowed then Some ''Unsupported file type. Allowed: CSV, Excel, JSON''
         else if file_size f > MAX_BYTES then Some ''File too large. Maximum size is 100MB''
         else None)"

definition cell_empty :: "jsval \<Rightarrow> bool" where
  "cell_empty v = (v = JUndefined \<or> v = JNull \<or> js_trim (js_String v) = [])"

definition validateStructure :: "string list \<Rightarrow> jsval list \<Rightarrow> string option" where
  "validateStructure hs rows =
     (if length hs = 0 then Some ''Could not detect any columns in the file''
      else if length rows = 0 then Some ''No sample rows found in the file''
      else
        (let totalCells = length rows * length hs;
             emptyCells = length (filter cell_empty (concat (map (\<lambda>row. map (get_prop row) hs) rows)))
         in if totalCells > 0 \<and> emptyCells = totalCells
            then Some ''All previewed values are empty; please check the file structure''
            else None))"

subsection \<open>Uploading\<close>

text \<open>
  The inner \<open>try\<close> of \<open>doUpload\<close> with its \<open>catch\<close>: \<open>True\<close> when \<open>doUpload\<close>
  returns from inside it. Reading \<open>rawData.sample_data\<close> for the log throws on a
  missing body, which the \<open>catch\<close> treats like a failed request.
\<close>

definition check_preview :: "network \<Rightarrow> api_client \<Rightarrow> jsval \<Rightarrow> upload_page \<Rightarrow> bool \<times> upload_page" where
  "check_preview net api datasetId v =
     (case api_get net api (''/datasets/'' @ js_String datasetId @ ''/preview'') (sess v) of
        (Inl e, s1) \<Rightarrow>
          (False, show_toast (ToastSuccess (JStr ''Upload complete. Redirecting...'')) (v\<lparr>sess := s1\<rparr>))
      | (Inr previewResponse, s1) \<Rightarrow>
          (let rawData = resp_data previewResponse;
               v1 = v\<lparr>sess := s1\<rparr>
           in if rawData = JUndefined \<or> rawData = JNull
              then (False, show_toast (ToastSuccess (JStr ''Upload complete. Redirecting...'')) v1)
              else if truthy (get_prop rawData ''preprocessing_applied'')
              then (True, show_toast (ToastError (JStr ''Data corruption detected! Please re-upload the file.'')) v1)
              else (False,
                    show_toast (ToastSuccess (JStr ''Upload complete with RAW data preserved!''))
                      (v1\<lparr>previewHeaders := get_prop rawData ''columns'',
                          previewRows := get_prop rawData ''sample_data''\<rparr>))))"

text \<open>The outer \<open>try\<close> block of \<open>doUpload\<close>.\<close>

definition doUpload_try :: "network \<Rightarrow> api_client \<Rightarrow> js_file \<Rightarrow> upload_page \<Rightarrow> (js_error + unit) \<times> upload_page" where
  "doUpload_try net api f v =
     (let v1 = v\<lparr>uploading := True, progress := 1\<rparr>;
          hs = [(''Content-Type'', ''multipart/form-data'')] @
               (case client_token api of
                  None \<Rightarrow> []
                | Some t \<Rightarrow> if t \<noteq> [] then [(''Authorization'', ''Bearer '' @ t)] else [])
      in case api_post net api ''/upload'' (FormData [(''file'', f)]) hs (sess v1) of
           (Inl e, s1) \<Rightarrow> (Inl (AxiosError e), v1\<lparr>sess := s1\<rparr>)
         | (Inr res, s1) \<Rightarrow>
             (let d = resp_data res;
                  datasetId = nullish (nullish (nullish (get_prop (get_prop d ''dataset'') ''id'')
                                                        (get_prop d ''id''))
                                               (get_prop d ''dataset_id''))
                                      (JNum 1)
              in case check_preview net api datasetId (v1\<lparr>sess := s1\<rparr>) of
                   (True, v2) \<Rightarrow> (Inr (), v2)
                 | (False, v2) \<Rightarrow>
                     (Inr (), v2\<lparr>success := True,
                                 scheduled := scheduled v2 @ [(700, ''/analyze/'' @ js_String datasetId)]\<rparr>)))"

text \<open>\<open>e?.response?.data?.detail || e?.message || 'Upload failed'\<close>.\<close>

definition upload_failure_text :: "js_error \<Rightarrow> jsval" where
  "upload_failure_text e =
     js_or (js_or (case e of AxiosError a \<Rightarrow> error_detail a | _ \<Rightarrow> JUndefined) (JStr (error_message e)))
           (JStr ''Upload failed'')"

definition doUpload :: "network \<Rightarrow> api_client \<Rightarrow> js_file \<Rightarrow> upload_page \<Rightarrow> (js_error + unit) \<times> upload_page" where
  "doUpload net api f v =
     (case doUpload_try net api f v of
        (Inr u, v1) \<Rightarrow> (Inr (), v1)
      | (Inl e, v1) \<Rightarrow>
          (Inr (), (show_toast (ToastError (upload_failure_text e)) v1)\<lparr>uploading := False, progress := 0\<rparr>))"

text \<open>
  The loop of \<open>doUploadWithRetry\<close>, from the current \<open>attempt\<close>. The first component
  of the result counts the calls of \<open>doUpload\<close>.
\<close>

function upload_loop :: "network \<Rightarrow> api_client \<Rightarrow> js_file \<Rightarrow> nat \<Rightarrow> nat \<Rightarrow> upload_page \<Rightarrow> nat \<times> upload_page" where
  "upload_loop net api f maxRetries n v =
     (if n \<le> maxRetries then
        (let prev = n
         in case doUpload net api f v of
              (Inr u, v1) \<Rightarrow> (1, v1)
            | (Inl e, v1) \<Rightarrow>
                (let n' = n + 1
                 in if n' > maxRetries then (1, v1\<lparr>errorMsg := ''Upload failed. Please try again.''\<rparr>)
                    else (case upload_loop net api f maxRetries n'
                                 (v1\<lparr>timers := timers v1 @ [min 2000 (500 * 2 ^ prev)]\<rparr>) of
                            (k, v2) \<Rightarrow> (Suc k, v2))))
      else (0, v))"
  by pat_completeness auto
termination
  by (relation "measure (\<lambda>(net, api, f, maxRetries, n, v). Suc maxRetries - n)") auto

declare upload_loop.simps [simp del]

definition doUploadWithRetry :: "network \<Rightarrow> api_client \<Rightarrow> js_file \<Rightarrow> nat \<Rightarrow> upload_page \<Rightarrow> nat \<times> upload_page" where
  "doUploadWithRetry net api f maxRetries v = upload_loop net api f maxRetries 0 v"

subsection \<open>Choosing a file\<close>

definition onFiles :: "json_parser \<Rightarrow> network \<Rightarrow> api_client \<Rightarrow> js_file list option \<Rightarrow> upload_page \<Rightarrow> upload_page" where
  "onFiles JSON_parse net api files v =
     (case files of
        None \<Rightarrow> v
      | Some [] \<Rightarrow> v
      | Some (f # others) \<Rightarrow>
          (let v1 = v\<lparr>errorMsg := [], success := False, fileName := file_name f, lastFile := Some f\<rparr>
           in case validateFileBasics f of
                Some basicError \<Rightarrow> show_toast (ToastError (JStr basicError)) (v1\<lparr>errorMsg := basicError\<rparr>)
              | None \<Rightarrow>
                  (case detectColumns JSON_parse f 3 (timers v1) of
                     (Inl e, tm) \<Rightarrow>
                       (let msg = (if error_message e \<noteq> [] then error_message e else ''Could not detect columns'')
                        in show_toast (ToastError (JStr msg)) (v1\<lparr>timers := tm, errorMsg := msg\<rparr>))
                   | (Inr (hs, rows), tm) \<Rightarrow>
                       (let v2 = v1\<lparr>timers := tm, previewHeaders := JArr (map JStr hs), previewRows := JArr rows\<rparr>
                        in case validateStructure hs rows of
                             Some structError \<Rightarrow> show_toast (ToastError (JStr structError)) (v2\<lparr>errorMsg := structError\<rparr>)
                           | None \<Rightarrow> snd (doUploadWithRetry net api f 2 v2)))))"

section \<open>Example inputs\<close>

text \<open>Concrete sessions, requests, networks and files, at which the theorems below are
  instantiated.\<close>

definition example_session :: session where
  "example_session =
     \<lparr>token = Some ''aaa.bbb.ccc'', localStorage = [''token'' \<mapsto> ''aaa.bbb.ccc''], loadingCount = 0,
      toasts = [], location_href = Some ''/dashboard'', sent = []\<rparr>"

definition example_client :: api_client where
  "example_client = \<lparr>client_baseURL = ''http://127.0.0.1:8000/api'', client_token = Some ''aaa.bbb.ccc''\<rparr>"

definition get_history :: config where
  "get_history = empty_config\<lparr>url := Some ''/history'', http_method := Some ''get''\<rparr>"

text \<open>\<open>get_history\<close> as \<open>example_client\<close> sends it.\<close>

definition get_history_sent :: config where
  "get_history_sent =
     \<lparr>baseURL = Some ''http://127.0.0.1:8000/api'', url = Some ''/history'', http_method = Some ''get'',
      headers = [(''Authorization'', ''Bearer aaa.bbb.ccc'')], data = NoBody, retryCount = None\<rparr>"

text \<open>
  A server's answer with the given status and body, as the transport settles it: a
  status from 200 to 299 fulfils, any other rejects.
\<close>

definition answer :: "nat \<Rightarrow> jsval \<Rightarrow> transport_result" where
  "answer n d =
     (if 200 \<le> n \<and> n < 300 then Fulfilled \<lparr>status = n, resp_data = d\<rparr>
      else Failed (Some (if n < 500 then ''ERR_BAD_REQUEST'' else ''ERR_BAD_RESPONSE''))
             (''Request failed with status code '' @ show_nat n) (Some \<lparr>status = n, resp_data = d\<rparr>))"

text \<open>A network that answers the first request with 503 and every later one with 200.\<close>

definition hiccup_network :: network where
  "hiccup_network earlier cfg =
     (if earlier = [] then answer 503 (JStr ''Service Unavailable'') else answer 200 (JArr []))"

text \<open>A network that answers every request with 404.\<close>

definition refusing_network :: network where
  "refusing_network earlier cfg = answer 404 (JObj [(''detail'', JStr ''Not Found'')])"

text \<open>The rejection of \<open>get_history\<close> with status 401.\<close>

definition unauthorized_error :: axios_error where
  "unauthorized_error =
     as_error get_history_sent (Some ''ERR_BAD_REQUEST'') ''Request failed with status code 401''
       (Some \<lparr>status = 401, resp_data = JObj [(''detail'', JStr ''Could not validate credentials'')]\<rparr>)"

text \<open>Three more rejections: a 404, a 422 whose detail is a list, and a 400 of a prediction.\<close>

definition not_found_error :: axios_error where
  "not_found_error =
     as_error get_history_sent (Some ''ERR_BAD_REQUEST'') ''Request failed with status code 404''
       (Some \<lparr>status = 404, resp_data = JObj [(''detail'', JStr ''Not Found'')]\<rparr>)"

definition validation_error :: axios_error where
  "validation_error =
     as_error (get_history_sent\<lparr>url := Some ''/train'', http_method := Some ''post''\<rparr>)
       (Some ''ERR_BAD_REQUEST'') ''Request failed with status code 422''
       (Some \<lparr>status = 422,
              resp_data = JObj [(''detail'', JArr [JObj [(''loc'', JArr [JStr ''body'', JStr ''target'']),
                                                        (''msg'', JStr ''field required'')]])]\<rparr>)"

definition predict_error :: axios_error where
  "predict_error =
     as_error (get_history_sent\<lparr>url := Some ''/predict/7'', http_method := Some ''post''\<rparr>)
       (Some ''ERR_BAD_REQUEST'') ''Request failed with status code 400''
       (Some \<lparr>status = 400, resp_data = JObj [(''detail'', JStr ''Model is corrupted'')]\<rparr>)"

text \<open>A URL parser that knows two URLs and rejects every other string, an environment
  that sets the override, and one that does not.\<close>

definition example_URL :: url_parser where
  "example_URL u =
     (if u = ''https://api.example.org/api'' then Some ''https:''
      else if u = ''ftp://files.example.org/api'' then Some ''ftp:''
      else None)"

definition env_with :: "string \<Rightarrow> env" where
  "env_with u = Some [''VITE_API_BASE_URL'' \<mapsto> u]"

definition no_override :: env where
  "no_override = Some Map.empty"

text \<open>A session before login, and networks that answer a login with a token, or with an
  empty one.\<close>

definition fresh_session :: session where
  "fresh_session =
     \<lparr>token = None, localStorage = Map.empty, loadingCount = 0, toasts = [],
      location_href = Some ''/login'', sent = []\<rparr>"

definition token_network :: network where
  "token_network earlier cfg = answer 200 (JObj [(''access_token'', JStr ''aaa.bbb.ccc''), (''token_type'', JStr ''bearer'')])"

definition empty_token_network :: network where
  "empty_token_network earlier cfg = answer 200 (JObj [(''access_token'', JStr [])])"

text \<open>Files of line feeds only, one of them above the size limit, a page that has not
  been used yet, and a JSON parser that rejects every text.\<close>

definition blank_lines :: "nat \<Rightarrow> string" where
  "blank_lines n = replicate n (CHR 0x0A)"

definition oversized_blank_csv :: js_file where
  "oversized_blank_csv = \<lparr>file_name = ''blank.csv'', file_size = 104857601, file_text = blank_lines 104857601\<rparr>"

definition blank_csv :: js_file where
  "blank_csv = \<lparr>file_name = ''Blank.CSV'', file_size = 2, file_text = blank_lines 2\<rparr>"

definition example_page :: upload_page where
  "example_page =
     \<lparr>sess = example_session, uploading = False, progress = 0, fileName = [], previewRows = JNull,
      previewHeaders = JNull, errorMsg = [], lastFile = None, success = False, timers = [], scheduled = []\<rparr>"

definition no_JSON :: json_parser where
  "no_JSON t = None"

section \<open>Properties of the session\<close>

subsection \<open>The initial token\<close>

lemma initial_token_storage_unchanged: "snd (initial_token ls) = ls"
  by (simp add: initial_token_def try_split_def split: option.splits)

lemma initial_token_malformed_unauthenticated:
  assumes "ls ''token'' = Some t" and "length (js_split CHR ''.'' t) \<noteq> 3"
  shows "fst (initial_token ls) = None"
  using assms by (simp add: initial_token_def try_split_def)

text \<open>
  C1. A stored token that does not split into three dot-separated parts starts the
  session without a token, and should be removed from \<open>localStorage\<close>. With
  \<open>''abc''\<close> stored, the session starts without a token, but the stored token stays:
  the removal stands in the \<open>catch\<close> clause, which a wrong number of parts does not
  reach.
\<close>

theorem initial_token_keeps_malformed_token:
  "fst (initial_token [''token'' \<mapsto> ''abc'']) = None \<and>
   snd (initial_token [''token'' \<mapsto> ''abc'']) ''token'' = Some ''abc''"
  by (simp add: initial_token_def try_split_def cons_first_def)

subsection \<open>The interceptors\<close>

lemma retry_of_set [simp]: "retry_of (c\<lparr>retryCount := Some n\<rparr>) = n"
  by (simp add: retry_of_def)

lemma set_retriable: "set retriable = {502, 503, 504}"
  by (simp add: retriable_def)

lemma response_rejected_decision:
  "fst (response_rejected e s) =
     (let cfg0 = (case err_config e of None \<Rightarrow> empty_config | Some c \<Rightarrow> c)
      in if (\<exists>n. error_status e = Some n \<and> n \<in> set retriable) \<and> retry_of cfg0 < MAX_RETRIES
         then Retry (cfg0\<lparr>retryCount := Some (retry_of cfg0 + 1)\<rparr>)
         else Reject (e\<lparr>err_config := map_option (\<lambda>c. c\<lparr>retryCount := Some (retry_of c)\<rparr>) (err_config e)\<rparr>))"
  by (cases "err_config e"; cases "error_status e") (auto simp: response_rejected_def Let_def)

lemma response_rejected_count:
  "loadingCount (snd (response_rejected e s)) = max 0 (loadingCount s - 1)"
  by (simp add: response_rejected_def Let_def)

lemma response_rejected_sent: "sent (snd (response_rejected e s)) = sent s"
  by (simp add: response_rejected_def Let_def)

lemma assoc_set_idem: "assoc_set k v (assoc_set k v kvs) = assoc_set k v kvs"
proof (cases "k \<in> fst ` set kvs")
  case True
  then have "k \<in> fst ` set (map (\<lambda>(k', v'). if k' = k then (k', v) else (k', v')) kvs)"
    by (force simp: image_iff split: if_splits)
  with True show ?thesis
    by (simp add: assoc_set_def split_beta)
next
  case False
  then have "map (\<lambda>(k', v'). if k' = k then (k', v) else (k', v')) kvs = kvs"
    by (intro map_idI) (auto simp: image_iff)
  with False show ?thesis
    by (simp add: assoc_set_def)
qed

lemma request_interceptor_idem:
  "fst (request_interceptor api (fst (request_interceptor api cfg s)\<lparr>retryCount := n\<rparr>) s') =
   fst (request_interceptor api cfg s)\<lparr>retryCount := n\<rparr>"
  by (simp add: request_interceptor_def Let_def assoc_set_idem split: option.splits)

lemma with_defaults_idem:
  "with_defaults api (fst (request_interceptor api (with_defaults api cfg) s)\<lparr>retryCount := n\<rparr>) =
   fst (request_interceptor api (with_defaults api cfg) s)\<lparr>retryCount := n\<rparr>"
  by (simp add: request_interceptor_def with_defaults_def Let_def split: option.splits)

lemma retry_of_sent_request:
  "retry_of (fst (request_interceptor api (with_defaults api cfg) s)) = retry_of cfg"
  by (simp add: request_interceptor_def with_defaults_def retry_of_def Let_def split: option.splits)

lemma request_interceptor_state:
  "snd (request_interceptor api cfg s) = s\<lparr>loadingCount := loadingCount s + 1\<rparr>"
  by (simp add: request_interceptor_def Let_def split: option.splits)

lemma attempt_eq:
  "attempt net api cfg s =
     (let c1 = fst (request_interceptor api (with_defaults api cfg) s);
          s2 = s\<lparr>loadingCount := loadingCount s + 1, sent := sent s @ [c1]\<rparr>
      in case net (sent s) c1 of
           Fulfilled r \<Rightarrow> (Inr r, s2\<lparr>loadingCount := max 0 (loadingCount s2 - 1)\<rparr>)
         | Failed c m r \<Rightarrow>
             (Inl (fst (response_rejected (as_error c1 c m r) s2)),
              snd (response_rejected (as_error c1 c m r) s2)))"
  by (cases "request_interceptor api (with_defaults api cfg) s")
     (use request_interceptor_state [of api "with_defaults api cfg" s] in
      \<open>auto simp: attempt_def Let_def response_fulfilled_def split: transport_result.splits prod.splits\<close>)

lemma attempt_sent:
  "sent (snd (attempt net api cfg s)) = sent s @ [fst (request_interceptor api (with_defaults api cfg) s)]"
  by (simp add: attempt_eq Let_def response_rejected_sent split: transport_result.splits)

lemma attempt_no_retry:
  assumes "MAX_RETRIES \<le> retry_of cfg"
  shows "\<forall>c. fst (attempt net api cfg s) \<noteq> Inl (Retry c)"
  using assms retry_of_sent_request [of api cfg s]
  by (auto simp: attempt_eq Let_def response_rejected_decision as_error_def split: transport_result.splits)

lemma dispatch_exhausted:
  assumes "MAX_RETRIES \<le> retry_of cfg"
  shows "sent (snd (dispatch net api cfg s)) =
         sent s @ [fst (request_interceptor api (with_defaults api cfg) s)]"
proof -
  obtain x s' where a: "attempt net api cfg s = (x, s')"
    by (cases "attempt net api cfg s")
  with attempt_no_retry [OF assms, of net api s] have nr: "\<forall>c. x \<noteq> Inl (Retry c)"
    by simp
  from a attempt_sent [of net api cfg s]
  have "sent s' = sent s @ [fst (request_interceptor api (with_defaults api cfg) s)]"
    by simp
  with a nr show ?thesis
    by (subst dispatch.simps) (auto split: sum.splits decision.splits)
qed

lemma resend_same_request:
  "fst (request_interceptor api (with_defaults api (fst (request_interceptor api (with_defaults api cfg) s)\<lparr>retryCount := n\<rparr>)) s') =
   fst (request_interceptor api (with_defaults api cfg) s)\<lparr>retryCount := n\<rparr>"
  by (simp add: with_defaults_idem request_interceptor_idem)

lemma dispatch_retry_step:
  assumes "attempt net api cfg s = (Inl (Retry c'), s')"
  shows "dispatch net api cfg s = dispatch net api c' s'"
  using assms by (subst dispatch.simps) simp

lemma dispatch_reject_step:
  assumes "attempt net api cfg s = (Inl (Reject e), s')"
  shows "dispatch net api cfg s = (Inl e, s')"
  using assms by (subst dispatch.simps) simp

lemma dispatch_fulfilled_step:
  assumes "attempt net api cfg s = (Inr r, s')"
  shows "dispatch net api cfg s = (Inr r, s')"
  using assms by (subst dispatch.simps) simp

text \<open>
  C2. Let \<open>req\<close> be a request as the client sends it, and let the network fail it.
  If the failure carries a response with status 502, 503 or 504 and the request's own
  retry counter is below \<open>MAX_RETRIES = 1\<close>, the client returns the outcome of
  dispatching the same request with the counter raised by one, and over the whole
  dispatch exactly two requests go out: \<open>req\<close> and \<open>req\<close> with the raised counter.
  In every other case (no response, any other status, counter used up) exactly one
  request goes out and the dispatch rejects with the error.
\<close>

theorem retry_once_on_transient_status:
  fixes net :: network
  assumes failed: "net (sent s) req = Failed cd m r"
    and sent_req: "req = fst (request_interceptor api (with_defaults api cfg) s)"
  shows "MAX_RETRIES = 1 \<and>
    ((\<exists>x. r = Some x \<and> status x \<in> {502, 503, 504}) \<and> retry_of cfg < MAX_RETRIES \<longrightarrow>
       dispatch net api cfg s =
         dispatch net api (req\<lparr>retryCount := Some (retry_of cfg + 1)\<rparr>) (snd (attempt net api cfg s)) \<and>
       sent (snd (dispatch net api cfg s)) = sent s @ [req, req\<lparr>retryCount := Some (retry_of cfg + 1)\<rparr>]) \<and>
    (\<not> ((\<exists>x. r = Some x \<and> status x \<in> {502, 503, 504}) \<and> retry_of cfg < MAX_RETRIES) \<longrightarrow>
       fst (dispatch net api cfg s) = Inl (as_error (req\<lparr>retryCount := Some (retry_of cfg)\<rparr>) cd m r) \<and>
       sent (snd (dispatch net api cfg s)) = sent s @ [req])"
proof -
  let ?s2 = "s\<lparr>loadingCount := loadingCount s + 1, sent := sent s @ [req]\<rparr>"
  let ?e = "as_error req cd m r"
  let ?c' = "req\<lparr>retryCount := Some (retry_of cfg + 1)\<rparr>"
  have r1: "retry_of req = retry_of cfg"
    using sent_req by (simp add: retry_of_sent_request)
  have att: "attempt net api cfg s = (Inl (fst (response_rejected ?e ?s2)), snd (response_rejected ?e ?s2))"
    using failed sent_req by (simp add: attempt_eq Let_def)
  have st: "error_status ?e = map_option status r" and cf: "err_config ?e = Some req"
    by (simp_all add: error_status_def as_error_def)
  have A: "dispatch net api cfg s = dispatch net api ?c' (snd (attempt net api cfg s)) \<and>
           sent (snd (dispatch net api cfg s)) = sent s @ [req, ?c']"
    if "\<exists>x. r = Some x \<and> status x \<in> {502, 503, 504}" and "retry_of cfg < MAX_RETRIES"
  proof -
    from that have "fst (response_rejected ?e ?s2) = Retry ?c'"
      by (auto simp: response_rejected_decision st cf r1 set_retriable)
    with att have att': "attempt net api cfg s = (Inl (Retry ?c'), snd (response_rejected ?e ?s2))"
      by simp
    then have step: "dispatch net api cfg s = dispatch net api ?c' (snd (attempt net api cfg s))"
      by (simp add: dispatch_retry_step)
    have "MAX_RETRIES \<le> retry_of ?c'"
      using that(2) by (simp add: MAX_RETRIES_def)
    from dispatch_exhausted [OF this, of net api "snd (attempt net api cfg s)"]
    have "sent (snd (dispatch net api ?c' (snd (attempt net api cfg s)))) = (sent s @ [req]) @ [?c']"
      using sent_req by (simp add: attempt_sent resend_same_request)
    with step show ?thesis by simp
  qed
  have B: "fst (dispatch net api cfg s) = Inl (as_error (req\<lparr>retryCount := Some (retry_of cfg)\<rparr>) cd m r) \<and>
           sent (snd (dispatch net api cfg s)) = sent s @ [req]"
    if "\<not> ((\<exists>x. r = Some x \<and> status x \<in> {502, 503, 504}) \<and> retry_of cfg < MAX_RETRIES)"
  proof -
    have eq: "?e\<lparr>err_config := Some (req\<lparr>retryCount := Some (retry_of cfg)\<rparr>)\<rparr> =
          as_error (req\<lparr>retryCount := Some (retry_of cfg)\<rparr>) cd m r"
      by (simp add: as_error_def)
    from that have "\<not> ((\<exists>n. error_status ?e = Some n \<and> n \<in> set retriable) \<and> retry_of req < MAX_RETRIES)"
      unfolding st r1 set_retriable by auto
    then have "fst (response_rejected ?e ?s2) =
        Reject (?e\<lparr>err_config := map_option (\<lambda>c. c\<lparr>retryCount := Some (retry_of c)\<rparr>) (err_config ?e)\<rparr>)"
      unfolding response_rejected_decision Let_def cf by simp
    then have "fst (response_rejected ?e ?s2) = Reject (as_error (req\<lparr>retryCount := Some (retry_of cfg)\<rparr>) cd m r)"
      unfolding cf using eq r1 by simp
    with att have "dispatch net api cfg s =
        (Inl (as_error (req\<lparr>retryCount := Some (retry_of cfg)\<rparr>) cd m r), snd (response_rejected ?e ?s2))"
      by (simp add: dispatch_reject_step)
    then show ?thesis
      by (simp add: response_rejected_sent)
  qed
  have "MAX_RETRIES = 1"
    by (simp add: MAX_RETRIES_def)
  with A B show ?thesis
    by blast
qed

theorem retry_once_witness:
  "sent (snd (dispatch hiccup_network example_client get_history example_session)) =
     [get_history_sent, get_history_sent\<lparr>retryCount := Some 1\<rparr>] \<and>
   sent (snd (dispatch refusing_network example_client get_history example_session)) = [get_history_sent] \<and>
   fst (dispatch refusing_network example_client get_history example_session) =
     Inl (as_error (get_history_sent\<lparr>retryCount := Some 0\<rparr>) (Some ''ERR_BAD_REQUEST'')
            ''Request failed with status code 404'' (Some \<lparr>status = 404, resp_data = JObj [(''detail'', JStr ''Not Found'')]\<rparr>))"
proof -
  have c1: "get_history_sent =
      fst (request_interceptor example_client (with_defaults example_client get_history) example_session)"
    by (simp add: request_interceptor_def with_defaults_def example_client_def get_history_def
        empty_config_def get_history_sent_def assoc_set_def)
  have r0: "retry_of get_history = 0"
    by (simp add: retry_of_def get_history_def empty_config_def)
  have n503: "show_nat 503 = ''503''" and n404: "show_nat 404 = ''404''"
    by (simp_all add: show_nat.simps)
  have f1: "hiccup_network (sent example_session) get_history_sent =
      Failed (Some ''ERR_BAD_RESPONSE'') ''Request failed with status code 503''
        (Some \<lparr>status = 503, resp_data = JStr ''Service Unavailable''\<rparr>)"
    by (simp add: hiccup_network_def example_session_def answer_def n503)
  have f2: "refusing_network (sent example_session) get_history_sent =
      Failed (Some ''ERR_BAD_REQUEST'') ''Request failed with status code 404''
        (Some \<lparr>status = 404, resp_data = JObj [(''detail'', JStr ''Not Found'')]\<rparr>)"
    by (simp add: refusing_network_def answer_def n404)
  have s0: "sent example_session = []"
    by (simp add: example_session_def)
  note a = retry_once_on_transient_status [where net = hiccup_network and s = example_session
      and req = get_history_sent and api = example_client and cfg = get_history, OF f1 c1]
  note b = retry_once_on_transient_status [where net = refusing_network and s = example_session
      and req = get_history_sent and api = example_client and cfg = get_history, OF f2 c1]
  have pa: "(\<exists>x. Some \<lparr>status = 503, resp_data = JStr ''Service Unavailable''\<rparr> = Some x \<and> status x \<in> {502, 503, 504})
      \<and> retry_of get_history < MAX_RETRIES"
    by (simp add: r0 MAX_RETRIES_def)
  have pb: "\<not> ((\<exists>x. Some \<lparr>status = 404, resp_data = JObj [(''detail'', JStr ''Not Found'')]\<rparr> = Some x
      \<and> status x \<in> {502, 503, 504}) \<and> retry_of get_history < MAX_RETRIES)"
    by simp
  from a pa have "sent (snd (dispatch hiccup_network example_client get_history example_session)) =
      sent example_session @ [get_history_sent, get_history_sent\<lparr>retryCount := Some (retry_of get_history + 1)\<rparr>]"
    by blast
  moreover from b pb have "fst (dispatch refusing_network example_client get_history example_session) =
      Inl (as_error (get_history_sent\<lparr>retryCount := Some (retry_of get_history)\<rparr>) (Some ''ERR_BAD_REQUEST'')
            ''Request failed with status code 404''
            (Some \<lparr>status = 404, resp_data = JObj [(''detail'', JStr ''Not Found'')]\<rparr>)) \<and>
      sent (snd (dispatch refusing_network example_client get_history example_session)) =
      sent example_session @ [get_history_sent]"
    by blast
  ultimately show ?thesis
    by (simp add: r0 s0)
qed

text \<open>
  C3. For every failure whose response has status 401, in a page that has a window
  (\<open>localStorage\<close>, which the same branch uses unguarded, is a property of it): after
  the failure path the token is cleared, the stored token is removed, the location is
  \<open>/login\<close>, no notification was added, and the error is rejected to the caller.
\<close>

theorem unauthorized_clears_session:
  assumes "err_response e = Some r" and "status r = 401" and "location_href s = Some h"
  shows "fst (response_rejected e s) =
           Reject (e\<lparr>err_config := map_option (\<lambda>c. c\<lparr>retryCount := Some (retry_of c)\<rparr>) (err_config e)\<rparr>) \<and>
         token (snd (response_rejected e s)) = None \<and>
         localStorage (snd (response_rejected e s)) ''token'' = None \<and>
         location_href (snd (response_rejected e s)) = Some ''/login'' \<and>
         toasts (snd (response_rejected e s)) = toasts s"
proof -
  from assms have st: "error_status e = Some 401"
    by (simp add: error_status_def)
  then have "fst (response_rejected e s) =
      Reject (e\<lparr>err_config := map_option (\<lambda>c. c\<lparr>retryCount := Some (retry_of c)\<rparr>) (err_config e)\<rparr>)"
    by (simp add: response_rejected_decision set_retriable)
  moreover from st assms(3) have "token (snd (response_rejected e s)) = None \<and>
      localStorage (snd (response_rejected e s)) ''token'' = None \<and>
      location_href (snd (response_rejected e s)) = Some ''/login'' \<and>
      toasts (snd (response_rejected e s)) = toasts s"
    by (simp add: response_rejected_def Let_def set_retriable)
  ultimately show ?thesis by simp
qed

theorem unauthorized_witness:
  "token example_session = Some ''aaa.bbb.ccc'' \<and>
   localStorage example_session ''token'' = Some ''aaa.bbb.ccc'' \<and>
   token (snd (response_rejected unauthorized_error example_session)) = None \<and>
   localStorage (snd (response_rejected unauthorized_error example_session)) ''token'' = None \<and>
   location_href (snd (response_rejected unauthorized_error example_session)) = Some ''/login'' \<and>
   toasts (snd (response_rejected unauthorized_error example_session)) = []"
proof -
  have "err_response unauthorized_error =
      Some \<lparr>status = 401, resp_data = JObj [(''detail'', JStr ''Could not validate credentials'')]\<rparr>"
    by (simp add: unauthorized_error_def as_error_def)
  moreover have "status \<lparr>status = 401, resp_data = JObj [(''detail'', JStr ''Could not validate credentials'')]\<rparr> = 401"
    by simp
  moreover have "location_href example_session = Some ''/dashboard''"
    by (simp add: example_session_def)
  ultimately have "token (snd (response_rejected unauthorized_error example_session)) = None \<and>
      localStorage (snd (response_rejected unauthorized_error example_session)) ''token'' = None \<and>
      location_href (snd (response_rejected unauthorized_error example_session)) = Some ''/login'' \<and>
      toasts (snd (response_rejected unauthorized_error example_session)) = toasts example_session"
    using unauthorized_clears_session [of unauthorized_error _ example_session]
    by blast
  then show ?thesis
    by (simp add: example_session_def)
qed

subsection \<open>Requests in flight\<close>

lemmas count_simps = request_interceptor_state response_fulfilled_def response_rejected_count

lemma run_events_nonneg:
  "0 \<le> loadingCount s \<Longrightarrow> 0 \<le> loadingCount (run_events es s)"
  unfolding run_events_def
proof (induction es arbitrary: s)
  case Nil
  then show ?case by simp
next
  case (Cons ev es)
  have "0 \<le> loadingCount (step ev s)"
    using Cons.prems by (cases ev) (simp_all add: count_simps)
  then show ?case
    using Cons.IH by simp
qed

lemma run_events_in_flight:
  "loadingCount s = int k \<Longrightarrow> in_flight es k = Some n \<Longrightarrow> loadingCount (run_events es s) = int n"
  unfolding run_events_def
proof (induction es arbitrary: s k)
  case Nil
  then show ?case by simp
next
  case (Cons ev es)
  show ?case
  proof (cases ev)
    case (Dispatched api cfg)
    with Cons.prems have "loadingCount (step ev s) = int (Suc k)" and "in_flight es (Suc k) = Some n"
      by (simp_all add: count_simps)
    then show ?thesis
      using Cons.IH [of "step ev s" "Suc k"] by simp
  next
    case (Succeeded r)
    with Cons.prems have "k \<noteq> 0" and "in_flight es (k - 1) = Some n"
      by (auto split: if_splits)
    moreover from this Succeeded Cons.prems have "loadingCount (step ev s) = int (k - 1)"
      by (simp add: count_simps)
    ultimately show ?thesis
      using Cons.IH [of "step ev s" "k - 1"] by simp
  next
    case (Errored e)
    with Cons.prems have "k \<noteq> 0" and "in_flight es (k - 1) = Some n"
      by (auto split: if_splits)
    moreover from this Errored Cons.prems have "loadingCount (step ev s) = int (k - 1)"
      by (simp add: count_simps)
    ultimately show ?thesis
      using Cons.IH [of "step ev s" "k - 1"] by simp
  qed
qed

lemma attempt_count:
  "0 \<le> loadingCount s \<Longrightarrow> loadingCount (snd (attempt net api cfg s)) = loadingCount s"
  by (simp add: attempt_eq Let_def response_rejected_count split: transport_result.splits)

lemma dispatch_count:
  "0 \<le> loadingCount s \<Longrightarrow> loadingCount (snd (dispatch net api cfg s)) = loadingCount s"
proof (induction net api cfg s rule: dispatch.induct)
  case (1 net api cfg s)
  obtain x s' where a: "attempt net api cfg s = (x, s')"
    by (cases "attempt net api cfg s")
  with attempt_count [OF "1.prems", of net api cfg] have c: "loadingCount s' = loadingCount s"
    by simp
  show ?case
  proof (cases x)
    case (Inr r)
    with a c show ?thesis by (simp add: dispatch_fulfilled_step)
  next
    case (Inl d)
    show ?thesis
    proof (cases d)
      case (Reject e)
      with a c Inl show ?thesis by (simp add: dispatch_reject_step)
    next
      case (Retry c')
      with a Inl have "dispatch net api cfg s = dispatch net api c' s'"
        by (simp add: dispatch_retry_step)
      moreover have "loadingCount (snd (dispatch net api c' s')) = loadingCount s'"
        using "1.IH" [of x s' d c'] a Inl Retry c "1.prems" by simp
      ultimately show ?thesis using c by simp
    qed
  qed
qed

text \<open>
  C4. \<open>loadingCount\<close> goes up by one on each dispatch and down by one, stopping at
  zero, on each success or failure. So it never becomes negative; started at zero, after
  any interleaving of interceptor runs in which responses only answer requests in
  flight, it is the number of requests still in flight, hence zero once all are
  resolved; and one whole dispatch, its retry included, returns it to zero.
\<close>

theorem loadingCount_tracks_requests_in_flight:
  "loadingCount (step (Dispatched api cfg) s) = loadingCount s + 1 \<and>
   loadingCount (step (Succeeded r) s) = max 0 (loadingCount s - 1) \<and>
   loadingCount (step (Errored e) s) = max 0 (loadingCount s - 1) \<and>
   (0 \<le> loadingCount s \<longrightarrow> 0 \<le> loadingCount (run_events es s)) \<and>
   (loadingCount s = 0 \<and> in_flight es 0 = Some n \<longrightarrow> loadingCount (run_events es s) = int n) \<and>
   (loadingCount s = 0 \<and> in_flight es 0 = Some 0 \<longrightarrow> loadingCount (run_events es s) = 0) \<and>
   (loadingCount s = 0 \<longrightarrow> loadingCount (snd (dispatch net api cfg s)) = 0)"
proof -
  have "loadingCount (run_events es s) = int n" if "loadingCount s = 0" and "in_flight es 0 = Some n" for n
    using that run_events_in_flight [of s 0 es n] by simp
  then show ?thesis
    using run_events_nonneg [of s es] dispatch_count [of s net api cfg]
    by (simp add: count_simps)
qed

theorem loadingCount_witness:
  "loadingCount (run_events [Dispatched example_client get_history, Dispatched example_client get_history,
       Errored unauthorized_error, Dispatched example_client get_history,
       Succeeded \<lparr>status = 200, resp_data = JArr []\<rparr>] example_session) = 1 \<and>
   loadingCount (run_events [Dispatched example_client get_history, Dispatched example_client get_history,
       Errored unauthorized_error, Succeeded \<lparr>status = 200, resp_data = JArr []\<rparr>] example_session) = 0 \<and>
   loadingCount (snd (dispatch hiccup_network example_client get_history example_session)) = 0"
proof -
  have z: "loadingCount example_session = 0"
    by (simp add: example_session_def)
  have one: "in_flight [Dispatched example_client get_history, Dispatched example_client get_history,
       Errored unauthorized_error, Dispatched example_client get_history,
       Succeeded \<lparr>status = 200, resp_data = JArr []\<rparr>] 0 = Some 1"
    by simp
  have none: "in_flight [Dispatched example_client get_history, Dispatched example_client get_history,
       Errored unauthorized_error, Succeeded \<lparr>status = 200, resp_data = JArr []\<rparr>] 0 = Some 0"
    by simp
  from z one loadingCount_tracks_requests_in_flight [of example_client get_history example_session _ _
      "[Dispatched example_client get_history, Dispatched example_client get_history,
       Errored unauthorized_error, Dispatched example_client get_history,
       Succeeded \<lparr>status = 200, resp_data = JArr []\<rparr>]" 1 hiccup_network]
  have a: "loadingCount (run_events [Dispatched example_client get_history, Dispatched example_client get_history,
       Errored unauthorized_error, Dispatched example_client get_history,
       Succeeded \<lparr>status = 200, resp_data = JArr []\<rparr>] example_session) = int 1"
    by blast
  from z none loadingCount_tracks_requests_in_flight [of example_client get_history example_session _ _
      "[Dispatched example_client get_history, Dispatched example_client get_history,
       Errored unauthorized_error, Succeeded \<lparr>status = 200, resp_data = JArr []\<rparr>]" 0 hiccup_network]
  have b: "loadingCount (run_events [Dispatched example_client get_history, Dispatched example_client get_history,
       Errored unauthorized_error, Succeeded \<lparr>status = 200, resp_data = JArr []\<rparr>] example_session) = 0 \<and>
       loadingCount (snd (dispatch hiccup_network example_client get_history example_session)) = 0"
    by blast
  from a b show ?thesis
    by simp
qed

subsection \<open>Notifications\<close>

lemma toast_text_cases:
  "toast_text e =
     (case error_detail e of
        JStr d \<Rightarrow> if d \<noteq> [] then d else if message e \<noteq> [] then message e else ''Request failed''
      | v \<Rightarrow> if truthy v then ''An unexpected error occurred''
             else if message e \<noteq> [] then message e else ''Request failed'')"
  by (cases "error_detail e") (simp_all add: toast_text_def js_or_def Let_def)

lemma response_rejected_toasts:
  "toasts (snd (response_rejected e s)) =
     (if (case error_status e of None \<Rightarrow> False | Some n \<Rightarrow> n \<in> set retriable) \<and>
         retry_of (case err_config e of None \<Rightarrow> empty_config | Some c \<Rightarrow> c) < MAX_RETRIES
      then toasts s
      else if error_status e = Some 401 then toasts s
      else if error_status e = Some 400 \<and>
              (case error_url e of None \<Rightarrow> False | Some v \<Rightarrow> js_includes v ''/predict/'')
      then toasts s
      else toasts s @ [ToastError (JStr (toast_text e))])"
  by (simp add: response_rejected_def Let_def)

text \<open>
  C5, as the code has it. For every failure that is not retried and is not a 401, the
  error is rejected to the caller, and one notification is shown unless the status is
  400 and the URL contains \<open>/predict/\<close>. Its text is the \<open>detail\<close> of the response
  body when that is a non-empty string, \<open>An unexpected error occurred\<close> when the
  detail is any other truthy value, and otherwise the error's message, or
  \<open>Request failed\<close> when the message is empty.
\<close>

theorem failure_notification:
  assumes not_retried:
      "\<not> ((\<exists>n. error_status e = Some n \<and> n \<in> {502, 503, 504}) \<and>
          retry_of (case err_config e of None \<Rightarrow> empty_config | Some c \<Rightarrow> c) < MAX_RETRIES)"
    and not_unauthorized: "error_status e \<noteq> Some 401"
  shows "fst (response_rejected e s) =
           Reject (e\<lparr>err_config := map_option (\<lambda>c. c\<lparr>retryCount := Some (retry_of c)\<rparr>) (err_config e)\<rparr>) \<and>
         toasts (snd (response_rejected e s)) =
           (if error_status e = Some 400 \<and> (\<exists>u. error_url e = Some u \<and> js_includes u ''/predict/'')
            then toasts s
            else toasts s @
              [ToastError (JStr
                 (case error_detail e of
                    JStr d \<Rightarrow> if d \<noteq> [] then d else if message e \<noteq> [] then message e else ''Request failed''
                  | v \<Rightarrow> if truthy v then ''An unexpected error occurred''
                         else if message e \<noteq> [] then message e else ''Request failed''))])"
proof -
  let ?cfg0 = "case err_config e of None \<Rightarrow> empty_config | Some c \<Rightarrow> c"
  from not_retried have nr: "\<not> ((\<exists>n. error_status e = Some n \<and> n \<in> set retriable) \<and> retry_of ?cfg0 < MAX_RETRIES)"
    by (simp add: set_retriable)
  then have d: "fst (response_rejected e s) =
      Reject (e\<lparr>err_config := map_option (\<lambda>c. c\<lparr>retryCount := Some (retry_of c)\<rparr>) (err_config e)\<rparr>)"
    unfolding response_rejected_decision Let_def by simp
  have nr': "((case error_status e of None \<Rightarrow> False | Some n \<Rightarrow> n \<in> set retriable) \<and>
      retry_of ?cfg0 < MAX_RETRIES) = False"
    using nr by (cases "error_status e") auto
  have u: "(case error_url e of None \<Rightarrow> False | Some v \<Rightarrow> js_includes v ''/predict/'') =
      (\<exists>u. error_url e = Some u \<and> js_includes u ''/predict/'')"
    by (cases "error_url e") simp_all
  have "toasts (snd (response_rejected e s)) =
      (if error_status e = Some 400 \<and> (\<exists>u. error_url e = Some u \<and> js_includes u ''/predict/'')
       then toasts s else toasts s @ [ToastError (JStr (toast_text e))])"
    unfolding response_rejected_toasts nr' u using not_unauthorized by simp
  with d show ?thesis
    by (simp add: toast_text_cases)
qed


theorem failure_notification_witness:
  "toasts (snd (response_rejected not_found_error example_session)) = [ToastError (JStr ''Not Found'')] \<and>
   toasts (snd (response_rejected predict_error example_session)) = [] \<and>
   fst (response_rejected predict_error example_session) =
     Reject (predict_error\<lparr>err_config :=
       Some (get_history_sent\<lparr>url := Some ''/predict/7'', http_method := Some ''post'', retryCount := Some 0\<rparr>)\<rparr>)"
proof -
  have st: "error_status not_found_error = Some 404" "error_status predict_error = Some 400"
    by (simp_all add: error_status_def not_found_error_def predict_error_def as_error_def)
  have url: "error_url not_found_error = Some ''/history''" "error_url predict_error = Some ''/predict/7''"
    by (simp_all add: error_url_def not_found_error_def predict_error_def as_error_def get_history_sent_def)
  have det: "error_detail not_found_error = JStr ''Not Found''"
    by (simp add: error_detail_def not_found_error_def as_error_def)
  have inc: "js_includes ''/predict/7'' ''/predict/''"
    by (simp add: startsWith_def)
  have cfg: "err_config predict_error =
      Some (get_history_sent\<lparr>url := Some ''/predict/7'', http_method := Some ''post''\<rparr>)"
    by (simp add: predict_error_def as_error_def)
  have r0: "retry_of (get_history_sent\<lparr>url := Some ''/predict/7'', http_method := Some ''post''\<rparr>) = 0"
    by (simp add: retry_of_def get_history_sent_def)
  have t0: "toasts example_session = []"
    by (simp add: example_session_def)
  have "toasts (snd (response_rejected not_found_error example_session)) =
      toasts example_session @ [ToastError (JStr ''Not Found'')]"
    using failure_notification [of not_found_error example_session] st url det
    by simp
  moreover have "fst (response_rejected predict_error example_session) =
      Reject (predict_error\<lparr>err_config :=
        Some (get_history_sent\<lparr>url := Some ''/predict/7'', http_method := Some ''post'', retryCount := Some 0\<rparr>)\<rparr>) \<and>
      toasts (snd (response_rejected predict_error example_session)) = toasts example_session"
    using failure_notification [of predict_error example_session] st url inc cfg r0
    by simp
  ultimately show ?thesis
    using t0 by simp
qed

text \<open>
  The claim as stated (the detail if present, else the message, else the fallback) fails
  where the detail is a list, as in a validation error: the notification is none of the
  three.
\<close>

theorem failure_notification_counterexample:
  "toasts (snd (response_rejected validation_error example_session)) =
     [ToastError (JStr ''An unexpected error occurred'')] \<and>
   error_detail validation_error =
     JArr [JObj [(''loc'', JArr [JStr ''body'', JStr ''target'']), (''msg'', JStr ''field required'')]] \<and>
   message validation_error = ''Request failed with status code 422'' \<and>
   JStr ''An unexpected error occurred'' \<notin>
     {error_detail validation_error, JStr (message validation_error), JStr ''Request failed''}"
proof -
  have det: "error_detail validation_error =
      JArr [JObj [(''loc'', JArr [JStr ''body'', JStr ''target'']), (''msg'', JStr ''field required'')]]"
    by (simp add: error_detail_def validation_error_def as_error_def)
  have msg: "message validation_error = ''Request failed with status code 422''"
    by (simp add: validation_error_def as_error_def)
  have st: "error_status validation_error = Some 422"
    by (simp add: error_status_def validation_error_def as_error_def)
  have "toasts (snd (response_rejected validation_error example_session)) =
      [ToastError (JStr ''An unexpected error occurred'')]"
    by (simp add: response_rejected_toasts st set_retriable toast_text_cases det example_session_def)
  with det msg show ?thesis
    by simp
qed

subsection \<open>The base URL\<close>

lemma resolve_missing:
  assumes "baseURLCandidate env = None \<or> baseURLCandidate env = Some []"
  shows "resolve_base_url URL env = Inr (DEFAULT_BASE_URL, [Log (''Using API base URL: '' @ DEFAULT_BASE_URL)])"
  using assms by (auto simp: resolve_base_url_def checked_base_url_def Let_def)

lemma resolve_valid:
  assumes "baseURLCandidate env = Some c" and "c \<noteq> []" and "URL c = Some p" and "startsWith p ''http''"
  shows "resolve_base_url URL env = Inr (c, [Log (''Using API base URL: '' @ c)])"
  using assms by (simp add: resolve_base_url_def checked_base_url_def Let_def)

lemma resolve_invalid:
  assumes "baseURLCandidate env = Some c" and "c \<noteq> []"
    and "URL c = None \<or> (\<exists>p. URL c = Some p \<and> \<not> startsWith p ''http'')"
  shows "resolve_base_url URL env =
     Inr (DEFAULT_BASE_URL,
          [Warn (''Invalid VITE_API_BASE_URL provided ('' @ c @ ''); falling back to '' @ DEFAULT_BASE_URL),
           Log (''Using API base URL: '' @ DEFAULT_BASE_URL)])"
  using assms by (auto simp: resolve_base_url_def checked_base_url_def Let_def)

lemma resolve_returns: "\<exists>b out. resolve_base_url URL env = Inr (b, out)"
  by (simp add: resolve_base_url_def Let_def split: sum.splits)

text \<open>
  C6, as the code has it. The resolution never throws. An override that is present,
  parses and has a protocol starting with \<open>http\<close> is used. An override that is
  present but does not parse, or has another protocol, gives the default
  \<open>http://127.0.0.1:8000/api\<close> and one warning. A missing override (undefined or
  empty) gives the default and no warning.
\<close>

theorem base_url_resolution:
  "DEFAULT_BASE_URL = ''http://127.0.0.1:8000/api'' \<and>
   (\<exists>b out. resolve_base_url URL env = Inr (b, out)) \<and>
   (\<forall>c p. baseURLCandidate env = Some c \<and> c \<noteq> [] \<and> URL c = Some p \<and> startsWith p ''http'' \<longrightarrow>
      resolve_base_url URL env = Inr (c, [Log (''Using API base URL: '' @ c)])) \<and>
   (\<forall>c. baseURLCandidate env = Some c \<and> c \<noteq> [] \<and>
        (URL c = None \<or> (\<exists>p. URL c = Some p \<and> \<not> startsWith p ''http'')) \<longrightarrow>
      resolve_base_url URL env =
        Inr (DEFAULT_BASE_URL,
             [Warn (''Invalid VITE_API_BASE_URL provided ('' @ c @ ''); falling back to '' @ DEFAULT_BASE_URL),
              Log (''Using API base URL: '' @ DEFAULT_BASE_URL)])) \<and>
   (baseURLCandidate env = None \<or> baseURLCandidate env = Some [] \<longrightarrow>
      resolve_base_url URL env = Inr (DEFAULT_BASE_URL, [Log (''Using API base URL: '' @ DEFAULT_BASE_URL)]))"
  using resolve_returns [of URL env] resolve_valid [of env _ URL] resolve_invalid [of env _ URL]
    resolve_missing [of env URL]
  by (simp add: DEFAULT_BASE_URL_def)

theorem base_url_resolution_witness:
  "resolve_base_url example_URL (env_with ''https://api.example.org/api'') =
     Inr (''https://api.example.org/api'', [Log ''Using API base URL: https://api.example.org/api'']) \<and>
   resolve_base_url example_URL (env_with ''ftp://files.example.org/api'') =
     Inr (''http://127.0.0.1:8000/api'',
          [Warn ''Invalid VITE_API_BASE_URL provided (ftp://files.example.org/api); falling back to http://127.0.0.1:8000/api'',
           Log ''Using API base URL: http://127.0.0.1:8000/api'']) \<and>
   resolve_base_url example_URL (env_with ''not a url'') =
     Inr (''http://127.0.0.1:8000/api'',
          [Warn ''Invalid VITE_API_BASE_URL provided (not a url); falling back to http://127.0.0.1:8000/api'',
           Log ''Using API base URL: http://127.0.0.1:8000/api'']) \<and>
   resolve_base_url example_URL no_override =
     Inr (''http://127.0.0.1:8000/api'', [Log ''Using API base URL: http://127.0.0.1:8000/api''])"
proof -
  have c: "baseURLCandidate (env_with u) = Some u" for u
    by (simp add: baseURLCandidate_def env_with_def)
  have n: "baseURLCandidate no_override = None"
    by (simp add: baseURLCandidate_def no_override_def)
  have u1: "example_URL ''https://api.example.org/api'' = Some ''https:''"
    and u2: "example_URL ''ftp://files.example.org/api'' = Some ''ftp:''"
    and u3: "example_URL ''not a url'' = None"
    by (simp_all add: example_URL_def)
  have p1: "startsWith ''https:'' ''http''" and p2: "\<not> startsWith ''ftp:'' ''http''"
    by (simp_all add: startsWith_def)
  note t1 = base_url_resolution [of example_URL "env_with ''https://api.example.org/api''"]
  note t2 = base_url_resolution [of example_URL "env_with ''ftp://files.example.org/api''"]
  note t3 = base_url_resolution [of example_URL "env_with ''not a url''"]
  note t4 = base_url_resolution [of example_URL no_override]
  have "resolve_base_url example_URL (env_with ''https://api.example.org/api'') =
      Inr (''https://api.example.org/api'', [Log (''Using API base URL: '' @ ''https://api.example.org/api'')])"
    using t1 c u1 p1 by blast
  moreover have "resolve_base_url example_URL (env_with ''ftp://files.example.org/api'') =
      Inr (DEFAULT_BASE_URL,
           [Warn (''Invalid VITE_API_BASE_URL provided ('' @ ''ftp://files.example.org/api'' @ ''); falling back to '' @ DEFAULT_BASE_URL),
            Log (''Using API base URL: '' @ DEFAULT_BASE_URL)])"
    using t2 c [of "''ftp://files.example.org/api''"] u2 p2 by blast
  moreover have "resolve_base_url example_URL (env_with ''not a url'') =
      Inr (DEFAULT_BASE_URL,
           [Warn (''Invalid VITE_API_BASE_URL provided ('' @ ''not a url'' @ ''); falling back to '' @ DEFAULT_BASE_URL),
            Log (''Using API base URL: '' @ DEFAULT_BASE_URL)])"
    using t3 c [of "''not a url''"] u3 by blast
  moreover have "resolve_base_url example_URL no_override =
      Inr (DEFAULT_BASE_URL, [Log (''Using API base URL: '' @ DEFAULT_BASE_URL)])"
    using t4 n by blast
  ultimately show ?thesis
    by (simp add: DEFAULT_BASE_URL_def)
qed

text \<open>
  The claim as stated has a warning for a missing override too. With the variable unset
  the console shows the base URL in use and no warning.
\<close>

theorem missing_override_no_warning:
  "resolve_base_url example_URL no_override =
     Inr (''http://127.0.0.1:8000/api'', [Log ''Using API base URL: http://127.0.0.1:8000/api'']) \<and>
   warnings [Log ''Using API base URL: http://127.0.0.1:8000/api''] = []"
  by (simp add: resolve_base_url_def checked_base_url_def baseURLCandidate_def no_override_def
      DEFAULT_BASE_URL_def warnings_def)

subsection \<open>login and signup\<close>

lemma login_sent:
  "sent (snd (login net env u p s)) = sent s @ [login_request (login_base_url env) u p]"
  by (simp add: login_def plain_post_def Let_def login_request_def
      split: transport_result.splits jsval.splits)

lemma signup_sent:
  "\<exists>rest. sent (snd (signup net env em u p s)) = sent s @ signup_request (signup_base_url env) em u p # rest"
  by (simp add: signup_def plain_post_def Let_def signup_request_def login_sent
      split: transport_result.splits)

lemma login_fulfilled:
  assumes "net (sent s) (login_request (login_base_url env) u p) = Fulfilled res"
    and "get_prop (resp_data res) ''access_token'' = JStr t"
  shows "login net env u p s =
     (Inr (), s\<lparr>sent := sent s @ [login_request (login_base_url env) u p], token := Some t,
                localStorage := (localStorage s)(''token'' \<mapsto> t)\<rparr>)"
  using assms by (simp add: login_def plain_post_def Let_def login_request_def)

lemma login_failed:
  assumes "net (sent s) (login_request (login_base_url env) u p) = Failed c m r"
  shows "login net env u p s =
     (Inl (AxiosError (as_error (login_request (login_base_url env) u p) c m r)),
      s\<lparr>sent := sent s @ [login_request (login_base_url env) u p]\<rparr>)"
  using assms by (simp add: login_def plain_post_def Let_def login_request_def)

text \<open>
  C8, as the code has it. \<open>login\<close> hands exactly one request to the network: a POST
  of the form-encoded user name and password to \<open>/login\<close>, with a content type and no
  authorization header. If the network fulfils it with a body whose \<open>access_token\<close>
  is the string \<open>t\<close>, the token becomes \<open>t\<close>, \<open>t\<close> is stored under \<open>token\<close>,
  and the session is authenticated exactly when \<open>t\<close> is not empty. If the network
  fails it, \<open>login\<close> rejects with that error and leaves token and storage as they
  were.
\<close>

theorem login_stores_token:
  "sent (snd (login net env u p s)) = sent s @ [login_request (login_base_url env) u p] \<and>
   url (login_request (login_base_url env) u p) = Some ''/login'' \<and>
   data (login_request (login_base_url env) u p) = UrlEncoded [(''username'', u), (''password'', p)] \<and>
   map_of (headers (login_request (login_base_url env) u p)) ''Content-Type'' =
     Some ''application/x-www-form-urlencoded'' \<and>
   map_of (headers (login_request (login_base_url env) u p)) ''Authorization'' = None \<and>
   (\<forall>res t. net (sent s) (login_request (login_base_url env) u p) = Fulfilled res \<and>
        get_prop (resp_data res) ''access_token'' = JStr t \<longrightarrow>
      fst (login net env u p s) = Inr () \<and>
      token (snd (login net env u p s)) = Some t \<and>
      localStorage (snd (login net env u p s)) ''token'' = Some t \<and>
      isAuthenticated (snd (login net env u p s)) = (t \<noteq> [])) \<and>
   (\<forall>c m r. net (sent s) (login_request (login_base_url env) u p) = Failed c m r \<longrightarrow>
      fst (login net env u p s) = Inl (AxiosError (as_error (login_request (login_base_url env) u p) c m r)) \<and>
      token (snd (login net env u p s)) = token s \<and>
      localStorage (snd (login net env u p s)) = localStorage s)"
proof -
  have "fst (login net env u p s) = Inr () \<and>
      token (snd (login net env u p s)) = Some t \<and>
      localStorage (snd (login net env u p s)) ''token'' = Some t \<and>
      isAuthenticated (snd (login net env u p s)) = (t \<noteq> [])"
    if "net (sent s) (login_request (login_base_url env) u p) = Fulfilled res"
      and "get_prop (resp_data res) ''access_token'' = JStr t" for res t
    using login_fulfilled [where net = net, OF that] by (simp add: isAuthenticated_def)
  moreover have "fst (login net env u p s) = Inl (AxiosError (as_error (login_request (login_base_url env) u p) c m r)) \<and>
      token (snd (login net env u p s)) = token s \<and>
      localStorage (snd (login net env u p s)) = localStorage s"
    if "net (sent s) (login_request (login_base_url env) u p) = Failed c m r" for c m r
    using login_failed [where net = net, OF that] by simp
  moreover have "url (login_request (login_base_url env) u p) = Some ''/login'' \<and>
      data (login_request (login_base_url env) u p) = UrlEncoded [(''username'', u), (''password'', p)] \<and>
      map_of (headers (login_request (login_base_url env) u p)) ''Content-Type'' =
        Some ''application/x-www-form-urlencoded'' \<and>
      map_of (headers (login_request (login_base_url env) u p)) ''Authorization'' = None"
    by (simp add: login_request_def)
  ultimately show ?thesis
    using login_sent [of net env u p s] by blast
qed

theorem login_witness:
  "fst (login token_network no_override ''alice'' ''secret123'' fresh_session) = Inr () \<and>
   token (snd (login token_network no_override ''alice'' ''secret123'' fresh_session)) = Some ''aaa.bbb.ccc'' \<and>
   localStorage (snd (login token_network no_override ''alice'' ''secret123'' fresh_session)) ''token'' = Some ''aaa.bbb.ccc'' \<and>
   isAuthenticated (snd (login token_network no_override ''alice'' ''secret123'' fresh_session)) \<and>
   token (snd (login refusing_network no_override ''alice'' ''secret123'' fresh_session)) = None \<and>
   fst (login refusing_network no_override ''alice'' ''secret123'' fresh_session) =
     Inl (AxiosError (as_error (login_request ''http://127.0.0.1:8000/api'' ''alice'' ''secret123'')
            (Some ''ERR_BAD_REQUEST'') ''Request failed with status code 404''
            (Some \<lparr>status = 404, resp_data = JObj [(''detail'', JStr ''Not Found'')]\<rparr>)))"
proof -
  let ?req = "login_request (login_base_url no_override) ''alice'' ''secret123''"
  have b: "login_base_url no_override = ''http://127.0.0.1:8000/api''"
    by (simp add: login_base_url_def no_override_def)
  have ok: "token_network (sent fresh_session) ?req =
      Fulfilled \<lparr>status = 200, resp_data = JObj [(''access_token'', JStr ''aaa.bbb.ccc''), (''token_type'', JStr ''bearer'')]\<rparr>"
    by (simp add: token_network_def answer_def)
  have tk: "get_prop (resp_data \<lparr>status = 200, resp_data = JObj [(''access_token'', JStr ''aaa.bbb.ccc''), (''token_type'', JStr ''bearer'')]\<rparr>)
      ''access_token'' = JStr ''aaa.bbb.ccc''"
    by simp
  have n404: "show_nat 404 = ''404''"
    by (simp add: show_nat.simps)
  have ko: "refusing_network (sent fresh_session) ?req =
      Failed (Some ''ERR_BAD_REQUEST'') ''Request failed with status code 404''
        (Some \<lparr>status = 404, resp_data = JObj [(''detail'', JStr ''Not Found'')]\<rparr>)"
    by (simp add: refusing_network_def answer_def n404)
  note t1 = login_stores_token [of token_network no_override "''alice''" "''secret123''" fresh_session]
  note t2 = login_stores_token [of refusing_network no_override "''alice''" "''secret123''" fresh_session]
  from t1 ok tk have "fst (login token_network no_override ''alice'' ''secret123'' fresh_session) = Inr () \<and>
      token (snd (login token_network no_override ''alice'' ''secret123'' fresh_session)) = Some ''aaa.bbb.ccc'' \<and>
      localStorage (snd (login token_network no_override ''alice'' ''secret123'' fresh_session)) ''token'' = Some ''aaa.bbb.ccc'' \<and>
      isAuthenticated (snd (login token_network no_override ''alice'' ''secret123'' fresh_session)) = (''aaa.bbb.ccc'' \<noteq> [])"
    by blast
  moreover from t2 ko have "fst (login refusing_network no_override ''alice'' ''secret123'' fresh_session) =
        Inl (AxiosError (as_error ?req (Some ''ERR_BAD_REQUEST'') ''Request failed with status code 404''
            (Some \<lparr>status = 404, resp_data = JObj [(''detail'', JStr ''Not Found'')]\<rparr>))) \<and>
      token (snd (login refusing_network no_override ''alice'' ''secret123'' fresh_session)) = token fresh_session"
    by blast
  ultimately show ?thesis
    by (simp add: b fresh_session_def)
qed

text \<open>
  The claim as stated has the session authenticated after every successful login. An
  empty access token is stored like any other, and \<open>!!token\<close> is false for it.
\<close>

theorem login_empty_token_counterexample:
  "fst (login empty_token_network no_override ''alice'' ''secret123'' fresh_session) = Inr () \<and>
   token (snd (login empty_token_network no_override ''alice'' ''secret123'' fresh_session)) = Some [] \<and>
   localStorage (snd (login empty_token_network no_override ''alice'' ''secret123'' fresh_session)) ''token'' = Some [] \<and>
   \<not> isAuthenticated (snd (login empty_token_network no_override ''alice'' ''secret123'' fresh_session))"
  by (simp add: login_def plain_post_def Let_def empty_token_network_def answer_def isAuthenticated_def)

text \<open>
  C9. With a non-empty override \<open>u\<close> in the environment, \<open>login\<close> and \<open>signup\<close>
  use \<open>u\<close> as the base URL of their requests, whatever it is; if \<open>u\<close> does not
  parse, or its protocol does not start with \<open>http\<close>, the client built by the
  provider uses the default.
\<close>

theorem auth_clients_use_unchecked_override:
  assumes "baseURLCandidate env = Some u" and "u \<noteq> []"
  shows "login_base_url env = u \<and> signup_base_url env = u \<and>
         sent (snd (login net env usr pw s)) = sent s @ [login_request u usr pw] \<and>
         (\<exists>rest. sent (snd (signup net env em usr pw s)) = sent s @ signup_request u em usr pw # rest) \<and>
         baseURL (login_request u usr pw) = Some u \<and> baseURL (signup_request u em usr pw) = Some u \<and>
         (URL u = None \<or> (\<exists>p. URL u = Some p \<and> \<not> startsWith p ''http'') \<longrightarrow>
            (\<exists>out. resolve_base_url URL env = Inr (DEFAULT_BASE_URL, out)))"
proof -
  from assms have l: "login_base_url env = u" and g: "signup_base_url env = u"
    by (auto simp: login_base_url_def signup_base_url_def baseURLCandidate_def split: option.splits)
  have "\<exists>out. resolve_base_url URL env = Inr (DEFAULT_BASE_URL, out)"
    if "URL u = None \<or> (\<exists>p. URL u = Some p \<and> \<not> startsWith p ''http'')"
    using resolve_invalid [where URL = URL, OF assms that] by simp
  then show ?thesis
    using l g login_sent [of net env usr pw s] signup_sent [of net env em usr pw s]
    by (simp add: login_request_def signup_request_def)
qed

theorem unchecked_override_witness:
  "login_base_url (env_with ''ftp://files.example.org/api'') = ''ftp://files.example.org/api'' \<and>
   signup_base_url (env_with ''ftp://files.example.org/api'') = ''ftp://files.example.org/api'' \<and>
   sent (snd (login token_network (env_with ''ftp://files.example.org/api'') ''alice'' ''secret123'' fresh_session)) =
     [login_request ''ftp://files.example.org/api'' ''alice'' ''secret123''] \<and>
   (\<exists>out. resolve_base_url example_URL (env_with ''ftp://files.example.org/api'') = Inr (''http://127.0.0.1:8000/api'', out))"
proof -
  have c: "baseURLCandidate (env_with ''ftp://files.example.org/api'') = Some ''ftp://files.example.org/api''"
    by (simp add: baseURLCandidate_def env_with_def)
  have ne: "''ftp://files.example.org/api'' \<noteq> []"
    by simp
  have bad: "example_URL ''ftp://files.example.org/api'' = None \<or>
      (\<exists>p. example_URL ''ftp://files.example.org/api'' = Some p \<and> \<not> startsWith p ''http'')"
    by (simp add: example_URL_def startsWith_def)
  from auth_clients_use_unchecked_override [OF c ne, of token_network "''alice''" "''secret123''" fresh_session _ example_URL] bad
  have "login_base_url (env_with ''ftp://files.example.org/api'') = ''ftp://files.example.org/api'' \<and>
      signup_base_url (env_with ''ftp://files.example.org/api'') = ''ftp://files.example.org/api'' \<and>
      sent (snd (login token_network (env_with ''ftp://files.example.org/api'') ''alice'' ''secret123'' fresh_session)) =
        sent fresh_session @ [login_request ''ftp://files.example.org/api'' ''alice'' ''secret123''] \<and>
      (\<exists>out. resolve_base_url example_URL (env_with ''ftp://files.example.org/api'') = Inr (DEFAULT_BASE_URL, out))"
    by blast
  then show ?thesis
    by (simp add: fresh_session_def DEFAULT_BASE_URL_def)
qed

section \<open>Properties of the upload page\<close>

lemma check_preview_keeps:
  "errorMsg (snd (check_preview net api d v)) = errorMsg v \<and> timers (snd (check_preview net api d v)) = timers v"
  by (simp add: check_preview_def show_toast_def Let_def split: prod.splits sum.splits)

lemma doUpload_try_keeps:
  "errorMsg (snd (doUpload_try net api f v)) = errorMsg v \<and> timers (snd (doUpload_try net api f v)) = timers v"
proof -
  let ?v1 = "v\<lparr>uploading := True, progress := 1\<rparr>"
  let ?hs = "[(''Content-Type'', ''multipart/form-data'')] @
             (case client_token api of None \<Rightarrow> []
              | Some t \<Rightarrow> if t \<noteq> [] then [(''Authorization'', ''Bearer '' @ t)] else [])"
  obtain r s1 where p: "api_post net api ''/upload'' (FormData [(''file'', f)]) ?hs (sess ?v1) = (r, s1)"
    by (cases "api_post net api ''/upload'' (FormData [(''file'', f)]) ?hs (sess ?v1)")
  show ?thesis
  proof (cases r)
    case (Inl e)
    with p show ?thesis
      by (simp add: doUpload_try_def Let_def)
  next
    case (Inr res)
    let ?d = "nullish (nullish (nullish (get_prop (get_prop (resp_data res) ''dataset'') ''id'')
                 (get_prop (resp_data res) ''id'')) (get_prop (resp_data res) ''dataset_id'')) (JNum 1)"
    obtain b v2 where c: "check_preview net api ?d (?v1\<lparr>sess := s1\<rparr>) = (b, v2)"
      by (cases "check_preview net api ?d (?v1\<lparr>sess := s1\<rparr>)")
    with check_preview_keeps [of net api ?d "?v1\<lparr>sess := s1\<rparr>"]
    have k: "errorMsg v2 = errorMsg v" "timers v2 = timers v"
      by simp_all
    from p Inr c k show ?thesis
      by (cases b) (simp_all add: doUpload_try_def Let_def)
  qed
qed

lemma doUpload_returns: "fst (doUpload net api f v) = Inr ()"
  by (simp add: doUpload_def split: prod.splits sum.splits)

lemma doUpload_keeps:
  "errorMsg (snd (doUpload net api f v)) = errorMsg v \<and> timers (snd (doUpload net api f v)) = timers v"
  using doUpload_try_keeps [of net api f v]
  by (cases "doUpload_try net api f v") (auto simp: doUpload_def show_toast_def split: sum.splits)

text \<open>
  C10. \<open>doUpload\<close> never rejects: a failure inside it ends in its \<open>catch\<close> clause,
  which shows a notification and resets \<open>uploading\<close> and \<open>progress\<close>. So the
  loop of \<open>doUploadWithRetry\<close> calls \<open>doUpload\<close> once and returns, for every file
  and every \<open>maxRetries\<close>: no delay is awaited and \<open>errorMsg\<close> is not assigned.
\<close>

theorem doUploadWithRetry_calls_doUpload_once:
  "fst (doUpload net api f v) = Inr () \<and>
   doUploadWithRetry net api f maxRetries v = (1, snd (doUpload net api f v)) \<and>
   errorMsg (snd (doUploadWithRetry net api f maxRetries v)) = errorMsg v \<and>
   timers (snd (doUploadWithRetry net api f maxRetries v)) = timers v \<and>
   (\<forall>e v1. doUpload_try net api f v = (Inl e, v1) \<longrightarrow>
      snd (doUpload net api f v) =
        (show_toast (ToastError (upload_failure_text e)) v1)\<lparr>uploading := False, progress := 0\<rparr>)"
proof -
  obtain v1 where d: "doUpload net api f v = (Inr (), v1)"
    using doUpload_returns [of net api f v] by (cases "doUpload net api f v") auto
  then have "upload_loop net api f maxRetries 0 v = (1, v1)"
    by (subst upload_loop.simps) simp
  moreover have "snd (doUpload net api f v) =
      (show_toast (ToastError (upload_failure_text e)) w)\<lparr>uploading := False, progress := 0\<rparr>"
    if "doUpload_try net api f v = (Inl e, w)" for e w
    using that by (simp add: doUpload_def)
  ultimately show ?thesis
    using d doUpload_keeps [of net api f v]
    by (simp add: doUploadWithRetry_def)
qed


theorem single_upload_witness:
  "fst (doUploadWithRetry refusing_network example_client blank_csv 2 example_page) = 1 \<and>
   errorMsg (snd (doUploadWithRetry refusing_network example_client blank_csv 2 example_page)) = [] \<and>
   timers (snd (doUploadWithRetry refusing_network example_client blank_csv 2 example_page)) = []"
proof -
  note once = doUploadWithRetry_calls_doUpload_once [of refusing_network example_client blank_csv example_page 2]
  from once have "fst (doUploadWithRetry refusing_network example_client blank_csv 2 example_page) = 1"
    by simp
  moreover from once have
    "errorMsg (snd (doUploadWithRetry refusing_network example_client blank_csv 2 example_page)) = errorMsg example_page \<and>
     timers (snd (doUploadWithRetry refusing_network example_client blank_csv 2 example_page)) = timers example_page"
    by blast
  moreover have "errorMsg example_page = [] \<and> timers example_page = []"
    by (simp add: example_page_def)
  ultimately show ?thesis
    by simp
qed

subsection \<open>Files without columns\<close>

lemma js_split_not_empty: "js_split sep s \<noteq> []"
  by (induction s) (simp_all add: cons_first_def split: list.splits)

lemma csv_no_headers_iff:
  "parseCsvHeadersRows f = Inr ([], rows) \<longleftrightarrow>
     filter (\<lambda>l. l \<noteq> []) (split_lines (file_text f)) = [] \<and> rows = []"
  by (auto simp: parseCsvHeadersRows_def Let_def js_split_not_empty split: list.splits)

lemma split_lines_LF: "split_lines (CHR 0x0A # xs) = [] # split_lines xs"
  by (cases xs) simp_all

lemma split_lines_blank: "split_lines (blank_lines n) = replicate (Suc n) []"
  by (induction n) (simp_all add: blank_lines_def split_lines_LF)

lemma parse_blank: "parseCsvHeadersRows (f\<lparr>file_text := blank_lines n\<rparr>) = Inr ([], [])"
  by (simp add: parseCsvHeadersRows_def split_lines_blank)

lemma csv_allowed:
  assumes "endsWith (toLowerCase (file_name f)) ''.csv''"
  shows "validateFileBasics f =
     (if file_size f > MAX_BYTES then Some ''File too large. Maximum size is 100MB'' else None)"
  using assms by (simp add: validateFileBasics_def ALLOWED_EXT_def Let_def)

lemma detect_rounds_no_headers:
  assumes "endsWith (toLowerCase (file_name f)) ''.csv''" and "parseCsvHeadersRows f = Inr ([], rows)"
  shows "detect_rounds J f k tm =
     (Inl (Error ''Could not detect columns after multiple attempts''), tm @ replicate k 500)"
  using assms by (induction k arbitrary: tm) (simp_all add: Let_def replicate_append_same)

text \<open>
  C7, as the code has it. A file whose name ends in \<open>.csv\<close> and whose text has no
  non-empty line (which is when the CSV preview has no headers) is rejected without any
  request to the network. Within the size limit the message is
  \<open>Could not detect columns after multiple attempts\<close>; above it the size check comes
  first and the message is \<open>File too large. Maximum size is 100MB\<close>.
\<close>

theorem csv_without_headers_rejected_locally:
  assumes csv: "endsWith (toLowerCase (file_name f)) ''.csv''"
    and none: "parseCsvHeadersRows f = Inr ([], rows)"
  shows "sent (sess (onFiles J net api (Some (f # others)) v)) = sent (sess v) \<and>
    (file_size f \<le> MAX_BYTES \<longrightarrow>
       errorMsg (onFiles J net api (Some (f # others)) v) = ''Could not detect columns after multiple attempts'' \<and>
       toasts (sess (onFiles J net api (Some (f # others)) v)) =
         toasts (sess v) @ [ToastError (JStr ''Could not detect columns after multiple attempts'')]) \<and>
    (MAX_BYTES < file_size f \<longrightarrow>
       errorMsg (onFiles J net api (Some (f # others)) v) = ''File too large. Maximum size is 100MB'' \<and>
       toasts (sess (onFiles J net api (Some (f # others)) v)) =
         toasts (sess v) @ [ToastError (JStr ''File too large. Maximum size is 100MB'')])"
proof (cases "file_size f > MAX_BYTES")
  case True
  then show ?thesis
    by (simp add: onFiles_def Let_def csv_allowed [OF csv] show_toast_def)
next
  case False
  have "detectColumns J f 3 tm =
      (Inl (Error ''Could not detect columns after multiple attempts''), tm @ [500, 500, 500])" for tm
    using detect_rounds_no_headers [OF csv none, of J 3 tm]
    by (simp add: detectColumns_def numeral_3_eq_3)
  with False show ?thesis
    by (simp add: onFiles_def Let_def csv_allowed [OF csv] show_toast_def)
qed

theorem csv_without_headers_witness:
  "errorMsg (onFiles no_JSON refusing_network example_client (Some [blank_csv]) example_page) =
     ''Could not detect columns after multiple attempts'' \<and>
   toasts (sess (onFiles no_JSON refusing_network example_client (Some [blank_csv]) example_page)) =
     [ToastError (JStr ''Could not detect columns after multiple attempts'')] \<and>
   sent (sess (onFiles no_JSON refusing_network example_client (Some [blank_csv]) example_page)) = []"
proof -
  have csv: "endsWith (toLowerCase (file_name blank_csv)) ''.csv''"
    by (simp add: blank_csv_def endsWith_def toLowerCase_def lower_char_def)
  have none: "parseCsvHeadersRows blank_csv = Inr ([], [])"
    using parse_blank [where f = blank_csv and n = 2] by (simp add: blank_csv_def)
  have size: "file_size blank_csv \<le> MAX_BYTES"
    by (simp add: blank_csv_def MAX_BYTES_def)
  from csv_without_headers_rejected_locally [OF csv none, of no_JSON refusing_network example_client "[]" example_page] size
  have "sent (sess (onFiles no_JSON refusing_network example_client (Some [blank_csv]) example_page)) = sent (sess example_page) \<and>
      errorMsg (onFiles no_JSON refusing_network example_client (Some [blank_csv]) example_page) =
        ''Could not detect columns after multiple attempts'' \<and>
      toasts (sess (onFiles no_JSON refusing_network example_client (Some [blank_csv]) example_page)) =
        toasts (sess example_page) @ [ToastError (JStr ''Could not detect columns after multiple attempts'')]"
    by blast
  then show ?thesis
    by (simp add: example_page_def example_session_def)
qed

text \<open>
  The claim as stated gives every such file the message about columns. A file of
  104857601 line feeds has no headers and is rejected for its size.
\<close>

theorem oversized_blank_csv_counterexample:
  "endsWith (toLowerCase (file_name oversized_blank_csv)) ''.csv'' \<and>
   parseCsvHeadersRows oversized_blank_csv = Inr ([], []) \<and>
   errorMsg (onFiles no_JSON refusing_network example_client (Some [oversized_blank_csv]) example_page) =
     ''File too large. Maximum size is 100MB'' \<and>
   toasts (sess (onFiles no_JSON refusing_network example_client (Some [oversized_blank_csv]) example_page)) =
     [ToastError (JStr ''File too large. Maximum size is 100MB'')]"
proof -
  have csv: "endsWith (toLowerCase (file_name oversized_blank_csv)) ''.csv''"
    by (simp add: oversized_blank_csv_def endsWith_def toLowerCase_def lower_char_def)
  have none: "parseCsvHeadersRows oversized_blank_csv = Inr ([], [])"
    using parse_blank [where f = oversized_blank_csv and n = 104857601] by (simp add: oversized_blank_csv_def)
  have big: "file_size oversized_blank_csv > MAX_BYTES"
    by (simp add: oversized_blank_csv_def MAX_BYTES_def)
  then have "errorMsg (onFiles no_JSON refusing_network example_client (Some [oversized_blank_csv]) example_page) =
        ''File too large. Maximum size is 100MB'' \<and>
      toasts (sess (onFiles no_JSON refusing_network example_client (Some [oversized_blank_csv]) example_page)) =
        toasts (sess example_page) @ [ToastError (JStr ''File too large. Maximum size is 100MB'')]"
    by (simp add: onFiles_def Let_def csv_allowed [OF csv] show_toast_def)
  with csv none show ?thesis
    by (simp add: example_page_def example_session_def)
qed

end
